theory Spec2Isabelle
  imports Main
begin

section \<open>Persistent store\<close>

text \<open>
  The tables of \<^verbatim>\<open>schema.sql\<close>, one record per row, with the columns that the
  modelled routes read or write. A table is the list of its rows; \<^verbatim>\<open>queryOne\<close> returns
  \<^verbatim>\<open>rows[0] || null\<close>, the first matching row. Primary keys (\<^verbatim>\<open>uuid_generate_v4()\<close>)
  are drawn from the counter \<open>next_uuid\<close>. Timestamps are milliseconds since the epoch;
  \<^verbatim>\<open>NOW()\<close> and \<^verbatim>\<open>Date.now()\<close> are the time at which a request is handled. The
  \<^verbatim>\<open>created_at\<close> and \<^verbatim>\<open>updated_at\<close> columns are left out. Of the constraints of the
  schema, UNIQUE on \<^verbatim>\<open>refresh_tokens.token_hash\<close> and on
  \<^verbatim>\<open>subscriptions.stripe_subscription_id\<close> and NOT NULL on
  \<^verbatim>\<open>subscriptions.stripe_customer_id\<close> are enforced, as are the range and the CHECK of
  \<^verbatim>\<open>invoices.amount\<close> and the width of \<^verbatim>\<open>users.email\<close> where the soft delete lengthens
  it, and \<^verbatim>\<open>ON CONFLICT (stripe_invoice_id)\<close> is followed; a violated constraint makes
  the statement throw without effect. Foreign keys, the other CHECK constraints and
  column widths, and failures of the store itself are not modelled. The users table
  carries \<^verbatim>\<open>stripe_customer_id\<close>, which the routes read and write.
\<close>

type_synonym uuid = nat
type_synonym timestamp = int

datatype subscription_status =
  Incomplete | IncompleteExpired | Trialing | Active | PastDue | Canceled | Unpaid | Paused

datatype invoice_status = Draft | Open | Paid | Uncollectible | Void

record user_row =
  u_id :: uuid
  email :: string
  password_hash :: string
  role :: string
  last_login_at :: "timestamp option"
  failed_login_attempts :: "int option"
  locked_until :: "timestamp option"
  deleted_at :: "timestamp option"
  stripe_customer_id :: "string option"

record subscription_row =
  sub_id :: uuid
  sub_user_id :: uuid
  sub_plan_id :: uuid
  sub_stripe_customer_id :: string
  stripe_subscription_id :: "string option"
  sub_status :: subscription_status
  current_period_start :: "timestamp option"
  current_period_end :: "timestamp option"
  cancel_at_period_end :: bool
  canceled_at :: "timestamp option"
  trial_start :: "timestamp option"
  trial_end :: "timestamp option"

record invoice_row =
  inv_id :: uuid
  inv_user_id :: uuid
  inv_subscription_id :: "uuid option"
  stripe_invoice_id :: string
  stripe_charge_id :: "string option"
  amount :: int
  currency :: string
  inv_status :: invoice_status
  invoice_pdf :: "string option"
  hosted_invoice_url :: "string option"
  period_start :: timestamp
  period_end :: timestamp
  paid_at :: "timestamp option"

record refresh_token_row =
  rt_id :: uuid
  rt_user_id :: uuid
  token_hash :: string
  expires_at :: timestamp
  revoked_at :: "timestamp option"
  replaced_by_token :: "uuid option"

section \<open>Provider events\<close>

text \<open>
  \<^verbatim>\<open>Stripe.Event\<close> is a union discriminated by \<^verbatim>\<open>event.type\<close>; the route switches on the
  type and casts \<^verbatim>\<open>event.data.object\<close> accordingly. \<open>OtherEvent\<close> carries the type of
  an event the switch does not handle. Provider timestamps are seconds since the epoch.
\<close>

record checkout_session =
  cs_mode :: string
  cs_metadata_userId :: "uuid option"
  cs_metadata_planId :: "uuid option"
  cs_customer :: "string option"
  cs_subscription :: "string option"
  cs_current_period_start :: "int option"
  cs_current_period_end :: "int option"
  cs_trial_start :: "int option"
  cs_trial_end :: "int option"

record stripe_subscription =
  ss_id :: string
  ss_status :: subscription_status
  ss_current_period_start :: int
  ss_current_period_end :: int
  ss_cancel_at_period_end :: bool
  ss_canceled_at :: "int option"
  ss_trial_start :: "int option"
  ss_trial_end :: "int option"

record stripe_invoice =
  si_id :: string
  si_customer :: "string option"
  si_subscription :: "string option"
  si_charge :: "string option"
  si_amount_due :: int
  si_currency :: string
  si_status :: invoice_status
  si_invoice_pdf :: "string option"
  si_hosted_invoice_url :: "string option"
  si_period_start :: int
  si_period_end :: int

datatype event_data =
  CheckoutSessionCompleted checkout_session
| CustomerSubscriptionCreated stripe_subscription
| CustomerSubscriptionUpdated stripe_subscription
| CustomerSubscriptionDeleted stripe_subscription
| InvoicePaymentSucceeded stripe_invoice
| InvoicePaymentFailed stripe_invoice
| InvoiceFinalized stripe_invoice
| OtherEvent string

record stripe_event =
  ev_id :: string
  ev_data :: event_data

fun event_type :: "event_data \<Rightarrow> string" where
  "event_type (CheckoutSessionCompleted _) = ''checkout.session.completed''"
| "event_type (CustomerSubscriptionCreated _) = ''customer.subscription.created''"
| "event_type (CustomerSubscriptionUpdated _) = ''customer.subscription.updated''"
| "event_type (CustomerSubscriptionDeleted _) = ''customer.subscription.deleted''"
| "event_type (InvoicePaymentSucceeded _) = ''invoice.payment_succeeded''"
| "event_type (InvoicePaymentFailed _) = ''invoice.payment_failed''"
| "event_type (InvoiceFinalized _) = ''invoice.finalized''"
| "event_type (OtherEvent t) = t"

record webhook_event_row =
  we_id :: uuid
  stripe_event_id :: string
  we_event_type :: string
  payload :: stripe_event
  processed_at :: "timestamp option"
  error_message :: "string option"
  retry_count :: int

record db =
  users :: "user_row list"
  subscriptions :: "subscription_row list"
  invoices :: "invoice_row list"
  refresh_tokens :: "refresh_token_row list"
  webhook_events :: "webhook_event_row list"
  next_uuid :: nat

section \<open>Tokens\<close>

text \<open>
  The \<^verbatim>\<open>jsonwebtoken\<close> library, as the routes use it. A token is its payload, the
  secret it was signed with and the \<^verbatim>\<open>iat\<close> and \<^verbatim>\<open>exp\<close> claims, in seconds.
  \<^verbatim>\<open>jwt.sign\<close> stamps \<^verbatim>\<open>iat\<close> with the clock in whole seconds and adds the
  configured lifetime; \<^verbatim>\<open>jwt.verify\<close> first checks the signature, then the expiry.
\<close>

record jwt =
  jwt_secret :: string
  jwt_userId :: uuid
  jwt_email :: "string option"
  jwt_role :: "string option"
  jwt_iat :: int
  jwt_exp :: int

datatype jwt_error = TokenExpiredError | JsonWebTokenError

record config =
  cfg_jwt_secret :: string
  cfg_jwt_expiresIn :: int
  cfg_jwt_refreshSecret :: string
  cfg_jwt_refreshExpiresIn :: int

definition jwt_sign :: "uuid \<Rightarrow> string option \<Rightarrow> string option \<Rightarrow> string \<Rightarrow> int \<Rightarrow> timestamp \<Rightarrow> jwt" where
  "jwt_sign uid em rl secret expiresIn now =
     \<lparr>jwt_secret = secret, jwt_userId = uid, jwt_email = em, jwt_role = rl,
      jwt_iat = now div 1000, jwt_exp = now div 1000 + expiresIn\<rparr>"

definition jwt_verify :: "jwt \<Rightarrow> string \<Rightarrow> timestamp \<Rightarrow> jwt_error + jwt" where
  "jwt_verify token secret now =
     (if jwt_secret token \<noteq> secret then Inl JsonWebTokenError
      else if now div 1000 \<ge> jwt_exp token then Inl TokenExpiredError
      else Inr token)"

text \<open>The JSON bodies the routes answer with, and a response with its status code.\<close>

datatype body =
  Received
| Error string
| Failure string
| Tokens jwt jwt
| Success string

datatype http_response = Res nat body

section \<open>Webhook ingestion\<close>

text \<open>
  \<^verbatim>\<open>x || Date.now() / 1000\<close> followed by \<^verbatim>\<open>to_timestamp\<close>: a missing or zero
  provider time becomes the processing time.
\<close>

definition to_timestamp :: "int \<Rightarrow> timestamp" where
  "to_timestamp secs = secs * 1000"

definition period_or_now :: "int option \<Rightarrow> timestamp \<Rightarrow> timestamp" where
  "period_or_now v now =
     (case v of None \<Rightarrow> now | Some s \<Rightarrow> if s = 0 then now else to_timestamp s)"

text \<open>\<^verbatim>\<open>CASE WHEN $n > 0 THEN to_timestamp($n) ELSE NULL END\<close> on \<^verbatim>\<open>x || 0\<close>.\<close>

definition trial_timestamp :: "int option \<Rightarrow> timestamp option" where
  "trial_timestamp v =
     (case v of None \<Rightarrow> None | Some s \<Rightarrow> if s > 0 then Some (to_timestamp s) else None)"

definition toUpperCase :: "string \<Rightarrow> string" where
  "toUpperCase s =
     map (\<lambda>c. let n = (of_char c :: nat) in if 97 \<le> n \<and> n \<le> 122 then char_of (n - 32) else c) s"

definition toLowerCase :: "string \<Rightarrow> string" where
  "toLowerCase s =
     map (\<lambda>c. let n = (of_char c :: nat) in if 65 \<le> n \<and> n \<le> 90 then char_of (n + 32) else c) s"

text \<open>The UNIQUE constraint on \<^verbatim>\<open>subscriptions.stripe_subscription_id\<close> (NULLs do not clash).\<close>

definition subscriptions_unique :: "subscription_row list \<Rightarrow> bool" where
  "subscriptions_unique subs = distinct (List.map_filter stripe_subscription_id subs)"

definition handleCheckoutSessionCompleted :: "db \<Rightarrow> checkout_session \<Rightarrow> timestamp \<Rightarrow> string + db" where
  "handleCheckoutSessionCompleted d session now =
     (if cs_mode session \<noteq> ''subscription'' then Inr d
      else case (cs_metadata_userId session, cs_metadata_planId session) of
        (Some userId, Some planId) \<Rightarrow>
          (case find (\<lambda>s. sub_user_id s = userId) (subscriptions d) of
             Some subscription \<Rightarrow>
               (let subs = map (\<lambda>s. if sub_user_id s = userId
                      then s\<lparr>stripe_subscription_id := cs_subscription session,
                             sub_status := Active,
                             current_period_start := Some (period_or_now (cs_current_period_start session) now),
                             current_period_end := Some (period_or_now (cs_current_period_end session) now),
                             trial_start := trial_timestamp (cs_trial_start session),
                             trial_end := trial_timestamp (cs_trial_end session)\<rparr>
                      else s) (subscriptions d)
                in if subscriptions_unique subs then Inr (d\<lparr>subscriptions := subs\<rparr>)
                   else Inl ''duplicate key value violates unique constraint'')
           | None \<Rightarrow>
               (case cs_customer session of
                  None \<Rightarrow> Inl ''null value in column stripe_customer_id violates not-null constraint''
                | Some customer \<Rightarrow>
                    (let subs = subscriptions d @
                       [\<lparr>sub_id = next_uuid d, sub_user_id = userId, sub_plan_id = planId,
                         sub_stripe_customer_id = customer,
                         stripe_subscription_id = cs_subscription session,
                         sub_status = Active,
                         current_period_start = Some (period_or_now (cs_current_period_start session) now),
                         current_period_end = Some (period_or_now (cs_current_period_end session) now),
                         cancel_at_period_end = False, canceled_at = None,
                         trial_start = trial_timestamp (cs_trial_start session),
                         trial_end = trial_timestamp (cs_trial_end session)\<rparr>]
                     in if subscriptions_unique subs
                        then Inr (d\<lparr>subscriptions := subs, next_uuid := Suc (next_uuid d)\<rparr>)
                        else Inl ''duplicate key value violates unique constraint'')))
      | _ \<Rightarrow> Inl ''Missing metadata in checkout session'')"

text \<open>
  \<^verbatim>\<open>handleSubscriptionUpdated\<close>. Its \<^verbatim>\<open>UPDATE\<close> tests \<^verbatim>\<open>$5 IS NOT NULL\<close> before any
  use gives \<^verbatim>\<open>$5\<close> a type (\<^verbatim>\<open>to_timestamp($5)\<close> comes after it), and PostgreSQL rejects
  such a statement when it is prepared. So the handler returns when no row carries
  the subscription reference, and throws when one does; no row is written.
\<close>

definition handleSubscriptionUpdated :: "db \<Rightarrow> stripe_subscription \<Rightarrow> timestamp \<Rightarrow> string + db" where
  "handleSubscriptionUpdated d subscription now =
     (case find (\<lambda>s. stripe_subscription_id s = Some (ss_id subscription)) (subscriptions d) of
        None \<Rightarrow> Inr d
      | Some dbSubscription \<Rightarrow> Inl ''could not determine data type of parameter $5'')"

definition handleSubscriptionDeleted :: "db \<Rightarrow> stripe_subscription \<Rightarrow> timestamp \<Rightarrow> string + db" where
  "handleSubscriptionDeleted d subscription now =
     Inr (d\<lparr>subscriptions := map (\<lambda>s. if stripe_subscription_id s = Some (ss_id subscription)
            then s\<lparr>sub_status := Canceled, canceled_at := Some now\<rparr>
            else s) (subscriptions d)\<rparr>)"

text \<open>\<^verbatim>\<open>!invoice.customer\<close>: the reference is missing or the empty string.\<close>

definition falsy :: "string option \<Rightarrow> bool" where
  "falsy v = (v = None \<or> v = Some [])"

text \<open>
  \<^verbatim>\<open>invoices.amount\<close> is \<^verbatim>\<open>INTEGER NOT NULL CHECK (amount >= 0)\<close>. The three
  \<^verbatim>\<open>INSERT ... ON CONFLICT\<close> statements throw for an amount outside the range of the
  type or below zero, whether or not a row for the invoice exists: the value is
  converted when the statement is bound, and the proposed row is checked before the
  conflict is looked for.
\<close>

definition amount_fits :: "int \<Rightarrow> bool" where
  "amount_fits a = (0 \<le> a \<and> a \<le> 2147483647)"

definition amount_error :: "int \<Rightarrow> string" where
  "amount_error a =
     (if a < - 2147483648 \<or> 2147483647 < a then ''value is out of range for type integer''
      else ''new row for relation invoices violates check constraint'')"

definition handleInvoicePaymentSucceeded :: "db \<Rightarrow> stripe_invoice \<Rightarrow> timestamp \<Rightarrow> string + db" where
  "handleInvoicePaymentSucceeded d invoice now =
     (if falsy (si_customer invoice) then Inr d
      else case find (\<lambda>u. stripe_customer_id u = si_customer invoice) (users d) of
        None \<Rightarrow> Inr d
      | Some user \<Rightarrow>
          (let subscriptionId =
                 (if falsy (si_subscription invoice) then None
                  else case find (\<lambda>s. stripe_subscription_id s = si_subscription invoice) (subscriptions d) of
                         None \<Rightarrow> None
                       | Some subscription \<Rightarrow> Some (sub_id subscription))
           in if \<not> amount_fits (si_amount_due invoice)
              then Inl (amount_error (si_amount_due invoice))
              else case find (\<lambda>r. stripe_invoice_id r = si_id invoice) (invoices d) of
                Some conflict \<Rightarrow>
                  Inr (d\<lparr>invoices := map (\<lambda>r. if stripe_invoice_id r = si_id invoice
                            then r\<lparr>inv_status := si_status invoice, paid_at := Some now\<rparr>
                            else r) (invoices d)\<rparr>)
              | None \<Rightarrow> Inr (d\<lparr>invoices := invoices d @
                     [\<lparr>inv_id = next_uuid d, inv_user_id = u_id user,
                       inv_subscription_id = subscriptionId,
                       stripe_invoice_id = si_id invoice, stripe_charge_id = si_charge invoice,
                       amount = si_amount_due invoice, currency = toUpperCase (si_currency invoice),
                       inv_status = si_status invoice, invoice_pdf = si_invoice_pdf invoice,
                       hosted_invoice_url = si_hosted_invoice_url invoice,
                       period_start = to_timestamp (si_period_start invoice),
                       period_end = to_timestamp (si_period_end invoice),
                       paid_at = Some now\<rparr>],
                     next_uuid := Suc (next_uuid d)\<rparr>)))"

definition handleInvoicePaymentFailed :: "db \<Rightarrow> stripe_invoice \<Rightarrow> timestamp \<Rightarrow> string + db" where
  "handleInvoicePaymentFailed d invoice now =
     (if falsy (si_customer invoice) then Inr d
      else case find (\<lambda>u. stripe_customer_id u = si_customer invoice) (users d) of
        None \<Rightarrow> Inr d
      | Some user \<Rightarrow>
          if \<not> amount_fits (si_amount_due invoice)
          then Inl (amount_error (si_amount_due invoice))
          else
          (case find (\<lambda>r. stripe_invoice_id r = si_id invoice) (invoices d) of
             Some conflict \<Rightarrow>
               Inr (d\<lparr>invoices := map (\<lambda>r. if stripe_invoice_id r = si_id invoice
                         then r\<lparr>inv_status := Open\<rparr> else r) (invoices d)\<rparr>)
           | None \<Rightarrow> Inr (d\<lparr>invoices := invoices d @
                  [\<lparr>inv_id = next_uuid d, inv_user_id = u_id user,
                    inv_subscription_id = None,
                    stripe_invoice_id = si_id invoice, stripe_charge_id = si_charge invoice,
                    amount = si_amount_due invoice, currency = toUpperCase (si_currency invoice),
                    inv_status = Open, invoice_pdf = None, hosted_invoice_url = None,
                    period_start = to_timestamp (si_period_start invoice),
                    period_end = to_timestamp (si_period_end invoice),
                    paid_at = None\<rparr>],
                  next_uuid := Suc (next_uuid d)\<rparr>)))"

definition handleInvoiceFinalized :: "db \<Rightarrow> stripe_invoice \<Rightarrow> timestamp \<Rightarrow> string + db" where
  "handleInvoiceFinalized d invoice now =
     (if falsy (si_customer invoice) then Inr d
      else case find (\<lambda>u. stripe_customer_id u = si_customer invoice) (users d) of
        None \<Rightarrow> Inr d
      | Some user \<Rightarrow>
          if \<not> amount_fits (si_amount_due invoice)
          then Inl (amount_error (si_amount_due invoice))
          else
          (case find (\<lambda>r. stripe_invoice_id r = si_id invoice) (invoices d) of
             Some conflict \<Rightarrow> Inr d
           | None \<Rightarrow> Inr (d\<lparr>invoices := invoices d @
                  [\<lparr>inv_id = next_uuid d, inv_user_id = u_id user,
                    inv_subscription_id = None,
                    stripe_invoice_id = si_id invoice, stripe_charge_id = si_charge invoice,
                    amount = si_amount_due invoice, currency = toUpperCase (si_currency invoice),
                    inv_status = si_status invoice, invoice_pdf = si_invoice_pdf invoice,
                    hosted_invoice_url = si_hosted_invoice_url invoice,
                    period_start = to_timestamp (si_period_start invoice),
                    period_end = to_timestamp (si_period_end invoice),
                    paid_at = None\<rparr>],
                  next_uuid := Suc (next_uuid d)\<rparr>)))"


definition invoice_owner :: "db \<Rightarrow> stripe_invoice \<Rightarrow> user_row option" where
  "invoice_owner d invoice =
     (if falsy (si_customer invoice) then None
      else find (\<lambda>u. stripe_customer_id u = si_customer invoice) (users d))"

text \<open>The \<^verbatim>\<open>switch (event.type)\<close> of the route; the default branch only logs.\<close>

fun dispatch :: "db \<Rightarrow> event_data \<Rightarrow> timestamp \<Rightarrow> string + db" where
  "dispatch d (CheckoutSessionCompleted session) now = handleCheckoutSessionCompleted d session now"
| "dispatch d (CustomerSubscriptionCreated subscription) now = handleSubscriptionUpdated d subscription now"
| "dispatch d (CustomerSubscriptionUpdated subscription) now = handleSubscriptionUpdated d subscription now"
| "dispatch d (CustomerSubscriptionDeleted subscription) now = handleSubscriptionDeleted d subscription now"
| "dispatch d (InvoicePaymentSucceeded invoice) now = handleInvoicePaymentSucceeded d invoice now"
| "dispatch d (InvoicePaymentFailed invoice) now = handleInvoicePaymentFailed d invoice now"
| "dispatch d (InvoiceFinalized invoice) now = handleInvoiceFinalized d invoice now"
| "dispatch d (OtherEvent t) now = Inr d"

record webhook_request =
  stripe_signature :: "string option"
  raw_body :: string

text \<open>
  \<^verbatim>\<open>POST /webhooks/stripe\<close>. The first argument is \<^verbatim>\<open>constructWebhookEvent\<close>, the
  provider library's signature check on the raw body: \<open>None\<close> where it throws.
  \<^verbatim>\<open>!signature\<close> holds for a missing and for an empty header. Every handler issues at
  most one writing statement, so a handler that throws has written nothing.
\<close>

definition existingEvent :: "db \<Rightarrow> string \<Rightarrow> webhook_event_row option" where
  "existingEvent d eid = find (\<lambda>w. stripe_event_id w = eid) (webhook_events d)"

definition stripe_webhook ::
  "(string \<Rightarrow> string \<Rightarrow> stripe_event option) \<Rightarrow> db \<Rightarrow> webhook_request \<Rightarrow> timestamp
     \<Rightarrow> http_response \<times> db" where
  "stripe_webhook constructWebhookEvent d req now =
     (case stripe_signature req of
        None \<Rightarrow> (Res 400 (Error ''Missing stripe-signature header''), d)
      | Some signature \<Rightarrow>
          if signature = [] then (Res 400 (Error ''Missing stripe-signature header''), d)
          else (case constructWebhookEvent (raw_body req) signature of
            None \<Rightarrow> (Res 400 (Error ''Invalid signature''), d)
          | Some event \<Rightarrow>
              (case existingEvent d (ev_id event) of
                 Some dup \<Rightarrow> (Res 200 Received, d)
               | None \<Rightarrow>
                   (let d1 = d\<lparr>webhook_events := webhook_events d @
                                [\<lparr>we_id = next_uuid d, stripe_event_id = ev_id event,
                                  we_event_type = event_type (ev_data event), payload = event,
                                  processed_at = None, error_message = None, retry_count = 0\<rparr>],
                              next_uuid := Suc (next_uuid d)\<rparr>
                    in case dispatch d1 (ev_data event) now of
                         Inr d2 \<Rightarrow>
                           (Res 200 Received,
                            d2\<lparr>webhook_events := map (\<lambda>w. if stripe_event_id w = ev_id event
                                  then w\<lparr>processed_at := Some now\<rparr> else w) (webhook_events d2)\<rparr>)
                       | Inl message \<Rightarrow>
                           (Res 500 (Error ''Webhook processing failed''),
                            d1\<lparr>webhook_events := map (\<lambda>w. if stripe_event_id w = ev_id event
                                  then w\<lparr>error_message := Some message, retry_count := retry_count w + 1\<rparr>
                                  else w) (webhook_events d1)\<rparr>)))))"

text \<open>A run of deliveries, each handled at its own time, one after the other.\<close>

fun deliver_all ::
  "(string \<Rightarrow> string \<Rightarrow> stripe_event option) \<Rightarrow> db \<Rightarrow> (webhook_request \<times> timestamp) list \<Rightarrow> db" where
  "deliver_all c d [] = d"
| "deliver_all c d ((req, now) # rest) = deliver_all c (snd (stripe_webhook c d req now)) rest"

section \<open>Credentials and sessions\<close>

text \<open>
  The routes are modelled from the point where a request has passed the rate limiter
  and the input validation in front of the handler. \<^verbatim>\<open>crypto\<close> and \<^verbatim>\<open>bcryptjs\<close> are
  taken as they come: \<open>sha256\<close> maps a raw token to the digest that is stored,
  \<open>bcrypt_compare\<close> tells whether a password matches a stored hash.
\<close>

record crypto =
  sha256 :: "jwt \<Rightarrow> string"
  bcrypt_compare :: "string \<Rightarrow> string \<Rightarrow> bool"
  bcrypt_hash :: "string \<Rightarrow> string"

record req_user =
  ru_id :: uuid
  ru_email :: string
  ru_role :: string

definition generateAccessToken :: "config \<Rightarrow> uuid \<Rightarrow> string \<Rightarrow> string \<Rightarrow> timestamp \<Rightarrow> jwt" where
  "generateAccessToken cfg uid em rl now =
     jwt_sign uid (Some em) (Some rl) (cfg_jwt_secret cfg) (cfg_jwt_expiresIn cfg) now"

definition generateRefreshToken :: "config \<Rightarrow> uuid \<Rightarrow> timestamp \<Rightarrow> jwt" where
  "generateRefreshToken cfg uid now =
     jwt_sign uid None None (cfg_jwt_refreshSecret cfg) (cfg_jwt_refreshExpiresIn cfg) now"

definition verifyRefreshToken :: "config \<Rightarrow> jwt \<Rightarrow> timestamp \<Rightarrow> jwt_error + jwt" where
  "verifyRefreshToken cfg token now = jwt_verify token (cfg_jwt_refreshSecret cfg) now"

definition thirty_days :: int where
  "thirty_days = 30 * 24 * 60 * 60 * 1000"

text \<open>
  \<^verbatim>\<open>INSERT INTO refresh_tokens\<close>: \<^verbatim>\<open>token_hash\<close> is UNIQUE, so storing a digest that is
  already there throws.
\<close>

definition insert_refresh_token ::
  "db \<Rightarrow> uuid \<Rightarrow> string \<Rightarrow> timestamp \<Rightarrow> uuid option \<Rightarrow> string + db" where
  "insert_refresh_token d uid hash expires replaced =
     (case find (\<lambda>r. token_hash r = hash) (refresh_tokens d) of
        Some clash \<Rightarrow> Inl ''duplicate key value violates unique constraint''
      | None \<Rightarrow>
          Inr (d\<lparr>refresh_tokens := refresh_tokens d @
                   [\<lparr>rt_id = next_uuid d, rt_user_id = uid, token_hash = hash,
                     expires_at = expires, revoked_at = None, replaced_by_token = replaced\<rparr>],
                 next_uuid := Suc (next_uuid d)\<rparr>))"

text \<open>\<^verbatim>\<open>authenticate\<close>, the bearer-token middleware. \<open>None\<close>: no \<^verbatim>\<open>Bearer\<close> header.\<close>

definition authenticate :: "config \<Rightarrow> db \<Rightarrow> jwt option \<Rightarrow> timestamp \<Rightarrow> http_response + req_user" where
  "authenticate cfg d bearer now =
     (case bearer of
        None \<Rightarrow> Inl (Res 401 (Failure ''UNAUTHORIZED''))
      | Some token \<Rightarrow>
          (case jwt_verify token (cfg_jwt_secret cfg) now of
             Inl TokenExpiredError \<Rightarrow> Inl (Res 401 (Failure ''TOKEN_EXPIRED''))
           | Inl JsonWebTokenError \<Rightarrow> Inl (Res 401 (Failure ''INVALID_TOKEN''))
           | Inr decoded \<Rightarrow>
               (case find (\<lambda>u. u_id u = jwt_userId decoded) (users d) of
                  None \<Rightarrow> Inl (Res 401 (Failure ''UNAUTHORIZED''))
                | Some user \<Rightarrow>
                    if deleted_at user \<noteq> None then Inl (Res 401 (Failure ''UNAUTHORIZED''))
                    else Inr \<lparr>ru_id = u_id user, ru_email = email user, ru_role = role user\<rparr>)))"

text \<open>\<^verbatim>\<open>POST /auth/login\<close>.\<close>

definition login :: "crypto \<Rightarrow> config \<Rightarrow> db \<Rightarrow> string \<Rightarrow> string \<Rightarrow> timestamp \<Rightarrow> http_response \<times> db" where
  "login env cfg d em password now =
     (let user = find (\<lambda>u. email u = toLowerCase em \<and> deleted_at u = None) (users d) in
      if (case user of None \<Rightarrow> False
          | Some u \<Rightarrow> (case locked_until u of None \<Rightarrow> False | Some l \<Rightarrow> l > now))
      then (Res 423 (Failure ''ACCOUNT_LOCKED''), d)
      else case user of
        None \<Rightarrow> (Res 401 (Failure ''INVALID_CREDENTIALS''), d)
      | Some u \<Rightarrow>
          if \<not> bcrypt_compare env password (password_hash u)
          then (let failedAttempts = (case failed_login_attempts u of None \<Rightarrow> 0 | Some n \<Rightarrow> n) + 1;
                    lockedUntil = (if failedAttempts \<ge> 5 then Some (now + 30 * 60 * 1000) else None)
                in (Res 401 (Failure ''INVALID_CREDENTIALS''),
                    d\<lparr>users := map (\<lambda>r. if u_id r = u_id u
                           then r\<lparr>failed_login_attempts := Some failedAttempts,
                                  locked_until := lockedUntil\<rparr>
                           else r) (users d)\<rparr>))
          else (let d1 = d\<lparr>users := map (\<lambda>r. if u_id r = u_id u
                             then r\<lparr>failed_login_attempts := Some 0, locked_until := None,
                                    last_login_at := Some now\<rparr>
                             else r) (users d)\<rparr>;
                    accessToken = generateAccessToken cfg (u_id u) (email u) (role u) now;
                    refreshToken = generateRefreshToken cfg (u_id u) now
                in case insert_refresh_token d1 (u_id u) (sha256 env refreshToken)
                          (now + thirty_days) None of
                     Inl err \<Rightarrow> (Res 500 (Failure ''INTERNAL_ERROR''), d1)
                   | Inr d2 \<Rightarrow> (Res 200 (Tokens accessToken refreshToken), d2)))"

text \<open>\<^verbatim>\<open>POST /auth/refresh\<close>. The body's \<^verbatim>\<open>refreshToken\<close> is \<open>None\<close> when it is missing.\<close>

definition refresh :: "crypto \<Rightarrow> config \<Rightarrow> db \<Rightarrow> jwt option \<Rightarrow> timestamp \<Rightarrow> http_response \<times> db" where
  "refresh env cfg d body_token now =
     (case body_token of
        None \<Rightarrow> (Res 401 (Failure ''REFRESH_TOKEN_REQUIRED''), d)
      | Some refreshToken \<Rightarrow>
          (case verifyRefreshToken cfg refreshToken now of
             Inl err \<Rightarrow> (Res 401 (Failure ''INVALID_REFRESH_TOKEN''), d)
           | Inr decoded \<Rightarrow>
               (case find (\<lambda>r. token_hash r = sha256 env refreshToken) (refresh_tokens d) of
                  None \<Rightarrow> (Res 401 (Failure ''INVALID_REFRESH_TOKEN''), d)
                | Some storedToken \<Rightarrow>
                    if revoked_at storedToken \<noteq> None \<or> expires_at storedToken < now
                    then (Res 401 (Failure ''INVALID_REFRESH_TOKEN''), d)
                    else (case find (\<lambda>u. u_id u = jwt_userId decoded \<and> deleted_at u = None) (users d) of
                       None \<Rightarrow> (Res 401 (Failure ''USER_NOT_FOUND''), d)
                     | Some user \<Rightarrow>
                         (let d1 = d\<lparr>refresh_tokens := map (\<lambda>r. if rt_id r = rt_id storedToken
                                        then r\<lparr>revoked_at := Some now\<rparr> else r) (refresh_tokens d)\<rparr>;
                              newAccessToken = generateAccessToken cfg (u_id user) (email user) (role user) now;
                              newRefreshToken = generateRefreshToken cfg (u_id user) now
                          in case insert_refresh_token d1 (u_id user) (sha256 env newRefreshToken)
                                    (now + thirty_days) (Some (rt_id storedToken)) of
                               Inl err \<Rightarrow> (Res 500 (Failure ''INTERNAL_ERROR''), d1)
                             | Inr d2 \<Rightarrow> (Res 200 (Tokens newAccessToken newRefreshToken), d2))))))"

text \<open>\<^verbatim>\<open>POST /auth/change-password\<close>, behind \<^verbatim>\<open>authenticate\<close>.\<close>

definition change_password ::
  "crypto \<Rightarrow> config \<Rightarrow> db \<Rightarrow> jwt option \<Rightarrow> string \<Rightarrow> string \<Rightarrow> timestamp \<Rightarrow> http_response \<times> db" where
  "change_password env cfg d bearer currentPassword newPassword now =
     (case authenticate cfg d bearer now of
        Inl denied \<Rightarrow> (denied, d)
      | Inr req_user \<Rightarrow>
          (case find (\<lambda>u. u_id u = ru_id req_user \<and> deleted_at u = None) (users d) of
             None \<Rightarrow> (Res 404 (Failure ''USER_NOT_FOUND''), d)
           | Some user \<Rightarrow>
               if \<not> bcrypt_compare env currentPassword (password_hash user)
               then (Res 400 (Failure ''INVALID_PASSWORD''), d)
               else (Res 200 (Success ''Password changed successfully''),
                     d\<lparr>users := map (\<lambda>r. if u_id r = ru_id req_user
                            then r\<lparr>password_hash := bcrypt_hash env newPassword\<rparr> else r) (users d),
                       refresh_tokens := map (\<lambda>r. if rt_user_id r = ru_id req_user \<and> revoked_at r = None
                            then r\<lparr>revoked_at := Some now\<rparr> else r) (refresh_tokens d)\<rparr>)))"

text \<open>The text of a key, as \<^verbatim>\<open>CONCAT\<close> renders it.\<close>

fun uuid_text :: "uuid \<Rightarrow> string" where
  "uuid_text n = (if n < 10 then [char_of (48 + n)]
                  else uuid_text (n div 10) @ [char_of (48 + n mod 10)])"

text \<open>
  \<^verbatim>\<open>DELETE /profile\<close>, behind \<^verbatim>\<open>authenticate\<close>: the soft delete. \<^verbatim>\<open>users.email\<close> is
  \<^verbatim>\<open>VARCHAR(255)\<close> and a key renders as 36 characters, so the \<^verbatim>\<open>UPDATE\<close> that appends
  \<^verbatim>\<open>.deleted.\<close> and the key throws for an address of more than 210 characters; the
  route then answers 500 and nothing is written.
\<close>

definition delete_profile ::
  "crypto \<Rightarrow> config \<Rightarrow> db \<Rightarrow> jwt option \<Rightarrow> string option \<Rightarrow> timestamp \<Rightarrow> http_response \<times> db" where
  "delete_profile env cfg d bearer password now =
     (case authenticate cfg d bearer now of
        Inl denied \<Rightarrow> (denied, d)
      | Inr req_user \<Rightarrow>
          (case password of
             None \<Rightarrow> (Res 400 (Failure ''PASSWORD_REQUIRED''), d)
           | Some pw \<Rightarrow>
               if pw = [] then (Res 400 (Failure ''PASSWORD_REQUIRED''), d)
               else (case find (\<lambda>u. u_id u = ru_id req_user \<and> deleted_at u = None) (users d) of
                  None \<Rightarrow> (Res 404 (Failure ''USER_NOT_FOUND''), d)
                | Some user \<Rightarrow>
                    if \<not> bcrypt_compare env pw (password_hash user)
                    then (Res 400 (Failure ''INVALID_PASSWORD''), d)
                    else if find (\<lambda>r. u_id r = ru_id req_user \<and>
                                       255 < length (email r) + length ''.deleted.'' + 36) (users d) \<noteq> None
                    then (Res 500 (Failure ''INTERNAL_ERROR''), d)
                    else (Res 200 (Success ''Account deleted successfully''),
                          d\<lparr>users := map (\<lambda>r. if u_id r = ru_id req_user
                                 then r\<lparr>deleted_at := Some now,
                                        email := email r @ ''.deleted.'' @ uuid_text (u_id r)\<rparr>
                                 else r) (users d),
                            refresh_tokens := map (\<lambda>r. if rt_user_id r = ru_id req_user
                                 then r\<lparr>revoked_at := Some now\<rparr> else r) (refresh_tokens d)\<rparr>))))"

declare uuid_text.simps [simp del]

section \<open>Example data\<close>

text \<open>
  Concrete stores, requests and events on which the theorems below are instantiated.
  \<open>accept_signed\<close> stands in for the provider's signature check: it accepts exactly the
  header \<^verbatim>\<open>v1=ok\<close> and decodes the body to the given event.
\<close>

definition empty_db :: db where
  "empty_db = \<lparr>users = [], subscriptions = [], invoices = [], refresh_tokens = [],
               webhook_events = [], next_uuid = 0\<rparr>"

definition accept_signed :: "stripe_event \<Rightarrow> string \<Rightarrow> string \<Rightarrow> stripe_event option" where
  "accept_signed ev body sg = (if sg = ''v1=ok'' then Some ev else None)"

definition signed_request :: webhook_request where
  "signed_request = \<lparr>stripe_signature = Some ''v1=ok'', raw_body = ''{}''\<rparr>"

definition forged_request :: webhook_request where
  "forged_request = \<lparr>stripe_signature = Some ''v1=forged'', raw_body = ''{}''\<rparr>"

definition checkout_without_metadata :: stripe_event where
  "checkout_without_metadata =
     \<lparr>ev_id = ''evt_1'',
      ev_data = CheckoutSessionCompleted
        \<lparr>cs_mode = ''subscription'', cs_metadata_userId = None, cs_metadata_planId = None,
         cs_customer = Some ''cus_1'', cs_subscription = Some ''sub_1'',
         cs_current_period_start = None, cs_current_period_end = None,
         cs_trial_start = None, cs_trial_end = None\<rparr>\<rparr>"

definition alice :: user_row where
  "alice = \<lparr>u_id = 1, email = ''alice@example.com'', password_hash = ''$2a$12$Secret123'',
            role = ''user'', last_login_at = None, failed_login_attempts = Some 4,
            locked_until = None, deleted_at = None, stripe_customer_id = Some ''cus_1''\<rparr>"

definition alice_db :: db where
  "alice_db = empty_db\<lparr>users := [alice], next_uuid := 2\<rparr>"

definition invoice_in1 :: stripe_invoice where
  "invoice_in1 =
     \<lparr>si_id = ''in_1'', si_customer = Some ''cus_1'', si_subscription = None,
      si_charge = Some ''ch_1'', si_amount_due = 1900, si_currency = ''usd'',
      si_status = Paid, si_invoice_pdf = None, si_hosted_invoice_url = None,
      si_period_start = 100, si_period_end = 200\<rparr>"

definition invoice_paid_event :: stripe_event where
  "invoice_paid_event = \<lparr>ev_id = ''evt_2'', ev_data = InvoicePaymentSucceeded invoice_in1\<rparr>"

definition canceled_row :: subscription_row where
  "canceled_row =
     \<lparr>sub_id = 2, sub_user_id = 1, sub_plan_id = 7, sub_stripe_customer_id = ''cus_1'',
      stripe_subscription_id = Some ''sub_1'', sub_status = Canceled,
      current_period_start = Some 0, current_period_end = Some 5000,
      cancel_at_period_end = False, canceled_at = Some 100,
      trial_start = None, trial_end = None\<rparr>"

definition canceled_db :: db where
  "canceled_db = alice_db\<lparr>subscriptions := [canceled_row], next_uuid := 3\<rparr>"

definition stripe_sub_1 :: stripe_subscription where
  "stripe_sub_1 =
     \<lparr>ss_id = ''sub_1'', ss_status = Canceled, ss_current_period_start = 0,
      ss_current_period_end = 5, ss_cancel_at_period_end = False, ss_canceled_at = Some 1,
      ss_trial_start = None, ss_trial_end = None\<rparr>"

definition sub_deleted_event :: stripe_event where
  "sub_deleted_event = \<lparr>ev_id = ''evt_3'', ev_data = CustomerSubscriptionDeleted stripe_sub_1\<rparr>"



text \<open>
  For the session routes: a configuration, a stand-in digest that tells the tokens of
  the examples apart by their issue time, and a stand-in password check.
\<close>

definition test_cfg :: config where
  "test_cfg = \<lparr>cfg_jwt_secret = ''access-secret'', cfg_jwt_expiresIn = 604800,
               cfg_jwt_refreshSecret = ''refresh-secret'', cfg_jwt_refreshExpiresIn = 2592000\<rparr>"

definition test_env :: crypto where
  "test_env =
     \<lparr>sha256 = (\<lambda>t. if jwt_iat t = 0 then ''digest-0'' else if jwt_iat t = 1 then ''digest-1''
                     else if jwt_iat t = 5 then ''digest-5'' else ''digest-n''),
      bcrypt_compare = (\<lambda>pw h. h = ''$2a$12$'' @ pw),
      bcrypt_hash = (\<lambda>pw. ''$2a$12$'' @ pw)\<rparr>"

definition token_T :: jwt where
  "token_T = generateRefreshToken test_cfg 1 0"

definition token_T2 :: jwt where
  "token_T2 = generateRefreshToken test_cfg 1 1000"

definition alice_access :: jwt where
  "alice_access = generateAccessToken test_cfg 1 ''alice@example.com'' ''user'' 0"

definition token_db :: db where
  "token_db = alice_db
     \<lparr>refresh_tokens :=
        [\<lparr>rt_id = 2, rt_user_id = 1, token_hash = ''digest-0'', expires_at = thirty_days,
          revoked_at = None, replaced_by_token = None\<rparr>,
         \<lparr>rt_id = 3, rt_user_id = 1, token_hash = ''digest-1'', expires_at = 1000 + thirty_days,
          revoked_at = None, replaced_by_token = None\<rparr>],
      next_uuid := 4\<rparr>"

section \<open>Properties of webhook ingestion\<close>

lemma dispatch_webhook_events:
  "dispatch d e now = Inr d2 \<Longrightarrow> webhook_events d2 = webhook_events d"
  by (cases e)
     (auto simp: handleCheckoutSessionCompleted_def handleSubscriptionUpdated_def
        handleSubscriptionDeleted_def handleInvoicePaymentSucceeded_def
        handleInvoicePaymentFailed_def handleInvoiceFinalized_def Let_def
        split: if_splits option.splits)

lemma existingEvent_None_iff:
  "(existingEvent d eid = None) = (eid \<notin> stripe_event_id ` set (webhook_events d))"
  by (auto simp: existingEvent_def find_None_iff)

lemma mark_event_ids:
  "(\<And>w. stripe_event_id (g w) = stripe_event_id w) \<Longrightarrow>
   stripe_event_id ` set (map (\<lambda>w. if stripe_event_id w = k then g w else w) ws)
     = stripe_event_id ` set ws"
  by (induction ws) auto

text \<open>The route once the signature has been verified.\<close>

lemma stripe_webhook_verified:
  assumes "stripe_signature req = Some sg" "sg \<noteq> []" "c (raw_body req) sg = Some event"
  shows "stripe_webhook c d req now =
    (case existingEvent d (ev_id event) of
       Some dup \<Rightarrow> (Res 200 Received, d)
     | None \<Rightarrow>
        (let d1 = d\<lparr>webhook_events := webhook_events d @
                     [\<lparr>we_id = next_uuid d, stripe_event_id = ev_id event,
                       we_event_type = event_type (ev_data event), payload = event,
                       processed_at = None, error_message = None, retry_count = 0\<rparr>],
                   next_uuid := Suc (next_uuid d)\<rparr>
         in case dispatch d1 (ev_data event) now of
              Inr d2 \<Rightarrow>
                (Res 200 Received,
                 d2\<lparr>webhook_events := map (\<lambda>w. if stripe_event_id w = ev_id event
                       then w\<lparr>processed_at := Some now\<rparr> else w) (webhook_events d2)\<rparr>)
            | Inl message \<Rightarrow>
                (Res 500 (Error ''Webhook processing failed''),
                 d1\<lparr>webhook_events := map (\<lambda>w. if stripe_event_id w = ev_id event
                       then w\<lparr>error_message := Some message, retry_count := retry_count w + 1\<rparr>
                       else w) (webhook_events d1)\<rparr>)))"
  using assms by (simp add: stripe_webhook_def)

text \<open>No delivery removes an event id from the ledger.\<close>

lemma webhook_event_ids:
  "stripe_event_id ` set (webhook_events d) \<subseteq>
     stripe_event_id ` set (webhook_events (snd (stripe_webhook c d req now)))"
proof (cases "\<exists>sg event. stripe_signature req = Some sg \<and> sg \<noteq> [] \<and> c (raw_body req) sg = Some event")
  case True
  then obtain sg event
    where v: "stripe_signature req = Some sg" "sg \<noteq> []" "c (raw_body req) sg = Some event"
    by blast
  show ?thesis
    unfolding stripe_webhook_verified[where c=c, OF v]
    by (auto simp: Let_def mark_event_ids
          dest!: dispatch_webhook_events split: option.splits sum.splits)
next
  case False
  then have "snd (stripe_webhook c d req now) = d"
    by (auto simp: stripe_webhook_def split: option.splits)
  then show ?thesis by simp
qed

lemma recorded_after_delivery:
  assumes v: "stripe_signature req = Some sg" "sg \<noteq> []" "c (raw_body req) sg = Some event"
  shows "existingEvent (snd (stripe_webhook c d req now)) (ev_id event) \<noteq> None"
proof (cases "existingEvent d (ev_id event)")
  case (Some w)
  then show ?thesis by (simp add: stripe_webhook_verified[where c=c, OF v])
next
  case None
  show ?thesis
    unfolding stripe_webhook_verified[where c=c, OF v] None option.case
    by (auto simp: existingEvent_None_iff Let_def mark_event_ids
          dest!: dispatch_webhook_events split: sum.splits)
qed

lemma duplicate_short_circuit:
  assumes "existingEvent d (ev_id event) \<noteq> None"
    and "stripe_signature req = Some sg" "sg \<noteq> []" "c (raw_body req) sg = Some event"
  shows "stripe_webhook c d req now = (Res 200 Received, d)"
  using assms by (auto simp: stripe_webhook_def split: option.splits)

lemma deliver_all_recorded:
  "existingEvent d eid \<noteq> None \<Longrightarrow> existingEvent (deliver_all c d rs) eid \<noteq> None"
proof (induction rs arbitrary: d)
  case Nil
  then show ?case by simp
next
  case (Cons a rs)
  obtain req now where a: "a = (req, now)" by (cases a)
  from Cons.prems have "existingEvent (snd (stripe_webhook c d req now)) eid \<noteq> None"
    using webhook_event_ids[of d c req now] by (auto simp: existingEvent_None_iff)
  then show ?case unfolding a by (simp add: Cons.IH)
qed

lemmas fixture_defs =
  empty_db_def alice_db_def alice_def accept_signed_def signed_request_def forged_request_def
  checkout_without_metadata_def invoice_in1_def invoice_paid_event_def
  canceled_db_def canceled_row_def stripe_sub_1_def sub_deleted_event_def

lemmas webhook_defs =
  stripe_webhook_def existingEvent_def handleCheckoutSessionCompleted_def
  handleSubscriptionUpdated_def handleSubscriptionDeleted_def handleInvoicePaymentSucceeded_def
  handleInvoicePaymentFailed_def handleInvoiceFinalized_def falsy_def amount_fits_def Let_def

text \<open>
  C9. A delivery whose signature header is missing or empty, or whose signature the
  provider library rejects, is answered with status 400 and leaves the whole store as
  it was: no business row changes and no row is written to the ledger.
\<close>

theorem webhook_invalid_signature_rejected:
  assumes "\<And>sg. stripe_signature req = Some sg \<Longrightarrow> sg \<noteq> [] \<Longrightarrow> c (raw_body req) sg = None"
  shows "\<exists>msg. stripe_webhook c d req now = (Res 400 (Error msg), d)"
  using assms by (auto simp: stripe_webhook_def split: option.splits)

theorem webhook_invalid_signature_rejected_witness:
  "\<exists>msg. stripe_webhook (accept_signed invoice_paid_event) alice_db forged_request 1000
           = (Res 400 (Error msg), alice_db)"
proof -
  have h: "accept_signed invoice_paid_event (raw_body forged_request) sg = None"
    if "stripe_signature forged_request = Some sg" for sg
    using that by (auto simp: accept_signed_def forged_request_def)
  show ?thesis
    by (rule webhook_invalid_signature_rejected) (rule h)
qed

text \<open>
  C1. A verified delivery of an event whose id is already in the ledger is answered
  with \<open>{received: true}\<close> and leaves the store as it was; and after any verified
  delivery of an event, a further delivery with the same event id changes nothing:
  applying the event twice gives the state that applying it once gives.
\<close>

theorem webhook_redelivery_no_mutation:
  assumes v: "stripe_signature req = Some sg" "sg \<noteq> []" "c (raw_body req) sg = Some event"
    and v': "stripe_signature req' = Some sg'" "sg' \<noteq> []" "c (raw_body req') sg' = Some event'"
    and same: "ev_id event' = ev_id event"
  shows "(existingEvent d (ev_id event) \<noteq> None \<longrightarrow>
            stripe_webhook c d req now = (Res 200 Received, d)) \<and>
         stripe_webhook c (snd (stripe_webhook c d req now)) req' later
           = (Res 200 Received, snd (stripe_webhook c d req now))"
proof
  show "existingEvent d (ev_id event) \<noteq> None \<longrightarrow>
            stripe_webhook c d req now = (Res 200 Received, d)"
    using v duplicate_short_circuit[where c=c] by blast
next
  have "existingEvent (snd (stripe_webhook c d req now)) (ev_id event') \<noteq> None"
    unfolding same by (rule recorded_after_delivery[where c=c, OF v])
  then show "stripe_webhook c (snd (stripe_webhook c d req now)) req' later
           = (Res 200 Received, snd (stripe_webhook c d req now))"
    using v' by (rule duplicate_short_circuit[where c=c])
qed

theorem webhook_redelivery_no_mutation_witness:
  "existingEvent (snd (stripe_webhook (accept_signed invoice_paid_event) alice_db signed_request 1000))
      (ev_id invoice_paid_event) \<noteq> None \<and>
   stripe_webhook (accept_signed invoice_paid_event)
      (snd (stripe_webhook (accept_signed invoice_paid_event) alice_db signed_request 1000))
      signed_request 2000
     = (Res 200 Received,
        snd (stripe_webhook (accept_signed invoice_paid_event) alice_db signed_request 1000))"
proof -
  have h1: "stripe_signature signed_request = Some ''v1=ok''"
    by (simp add: signed_request_def)
  have h2: "''v1=ok'' \<noteq> []" by simp
  have h3: "accept_signed invoice_paid_event (raw_body signed_request) ''v1=ok'' = Some invoice_paid_event"
    by (simp add: accept_signed_def)
  have rec: "existingEvent (snd (stripe_webhook (accept_signed invoice_paid_event) alice_db signed_request 1000))
      (ev_id invoice_paid_event) \<noteq> None"
    by (simp add: webhook_defs fixture_defs)
  from webhook_redelivery_no_mutation
         [where c="accept_signed invoice_paid_event"
            and d="snd (stripe_webhook (accept_signed invoice_paid_event) alice_db signed_request 1000)"
            and now=2000, OF h1 h2 h3 h1 h2 h3 refl] rec
  show ?thesis by blast
qed

text \<open>
  C7. When the handling of a verified event fails after its ledger row was inserted
  (status 500), the row is left with \<open>processed_at\<close> null, the error message and a retry
  count of one; and after any further deliveries, a delivery carrying the same event
  id is answered with \<open>{received: true}\<close> by the duplicate check and leaves the store
  as it was, so the failed application is never completed.
\<close>

theorem webhook_failed_event_never_reapplied:
  assumes v: "stripe_signature req = Some sg" "sg \<noteq> []" "c (raw_body req) sg = Some event"
    and failed: "fst (stripe_webhook c d req now) = Res 500 (Error ''Webhook processing failed'')"
    and v': "stripe_signature req' = Some sg'" "sg' \<noteq> []" "c (raw_body req') sg' = Some event'"
    and same: "ev_id event' = ev_id event"
  shows "(\<exists>w. existingEvent (snd (stripe_webhook c d req now)) (ev_id event) = Some w \<and>
              processed_at w = None \<and> error_message w \<noteq> None \<and> retry_count w = 1) \<and>
         stripe_webhook c (deliver_all c (snd (stripe_webhook c d req now)) rs) req' later
           = (Res 200 Received, deliver_all c (snd (stripe_webhook c d req now)) rs)"
proof
  have none: "existingEvent d (ev_id event) = None"
    using failed
    by (cases "existingEvent d (ev_id event)")
       (simp_all add: stripe_webhook_verified[where c=c, OF v])
  have nomatch: "stripe_event_id w \<noteq> ev_id event" if "w \<in> set (webhook_events d)" for w
    using none that unfolding existingEvent_def find_None_iff by blast
  have skip: "find P (map f xs @ ys) = find P ys" if "\<And>x. x \<in> set xs \<Longrightarrow> \<not> P (f x)"
    for P :: "webhook_event_row \<Rightarrow> bool" and f :: "webhook_event_row \<Rightarrow> webhook_event_row" and xs ys
    using that by (induction xs) auto
  show "\<exists>w. existingEvent (snd (stripe_webhook c d req now)) (ev_id event) = Some w \<and>
              processed_at w = None \<and> error_message w \<noteq> None \<and> retry_count w = 1"
    using failed nomatch unfolding stripe_webhook_verified[where c=c, OF v] none option.case
    by (auto simp: Let_def existingEvent_def skip split: sum.splits)
next
  have "existingEvent (snd (stripe_webhook c d req now)) (ev_id event') \<noteq> None"
    unfolding same by (rule recorded_after_delivery[where c=c, OF v])
  then have "existingEvent (deliver_all c (snd (stripe_webhook c d req now)) rs) (ev_id event') \<noteq> None"
    by (rule deliver_all_recorded)
  then show "stripe_webhook c (deliver_all c (snd (stripe_webhook c d req now)) rs) req' later
           = (Res 200 Received, deliver_all c (snd (stripe_webhook c d req now)) rs)"
    using v' by (rule duplicate_short_circuit[where c=c])
qed

theorem webhook_failed_event_never_reapplied_witness:
  "fst (stripe_webhook (accept_signed checkout_without_metadata) alice_db signed_request 1000)
     = Res 500 (Error ''Webhook processing failed'') \<and>
   stripe_webhook (accept_signed checkout_without_metadata)
      (deliver_all (accept_signed checkout_without_metadata)
         (snd (stripe_webhook (accept_signed checkout_without_metadata) alice_db signed_request 1000))
         [(signed_request, 2000)])
      signed_request 3000
     = (Res 200 Received,
        deliver_all (accept_signed checkout_without_metadata)
          (snd (stripe_webhook (accept_signed checkout_without_metadata) alice_db signed_request 1000))
          [(signed_request, 2000)])"
proof -
  have h1: "stripe_signature signed_request = Some ''v1=ok''"
    by (simp add: signed_request_def)
  have h2: "''v1=ok'' \<noteq> []" by simp
  have h3: "accept_signed checkout_without_metadata (raw_body signed_request) ''v1=ok''
              = Some checkout_without_metadata"
    by (simp add: accept_signed_def)
  have failed: "fst (stripe_webhook (accept_signed checkout_without_metadata) alice_db signed_request 1000)
     = Res 500 (Error ''Webhook processing failed'')"
    by (simp add: webhook_defs fixture_defs)
  from webhook_failed_event_never_reapplied
         [where c="accept_signed checkout_without_metadata" and d=alice_db and now=1000
            and rs="[(signed_request, 2000)]" and later=3000,
          OF h1 h2 h3 failed h1 h2 h3 refl] failed
  show ?thesis by blast
qed

section \<open>Properties of the event handlers\<close>

text \<open>
  C10, as the specification states it, does not hold: a row that is already canceled and
  carries a canceled-at time is stamped again. Here the row was canceled at 100 and
  the deletion event is handled at 200.
\<close>

theorem subscription_deleted_restamps_canceled_at:
  "sub_status canceled_row = Canceled \<and> canceled_at canceled_row = Some 100 \<and>
   handleSubscriptionDeleted canceled_db stripe_sub_1 200
     = Inr (canceled_db\<lparr>subscriptions := [canceled_row\<lparr>canceled_at := Some 200\<rparr>]\<rparr>)"
  by (simp add: handleSubscriptionDeleted_def canceled_db_def canceled_row_def stripe_sub_1_def)

text \<open>
  C10, amended. \<open>handleSubscriptionDeleted\<close> always succeeds; every row carrying the
  event's provider subscription reference gets status \<open>canceled\<close> and canceled-at set to
  the processing time, whatever its status and canceled-at were before; every other
  row is left as it was. The same holds of the route when it handles a verified
  \<open>customer.subscription.deleted\<close> event that is new to the ledger, which moreover
  leaves users and invoices alone.
\<close>

theorem subscription_deleted_always_stamps:
  "(\<exists>d'. handleSubscriptionDeleted d subscription now = Inr d' \<and>
        length (subscriptions d') = length (subscriptions d) \<and>
        (\<forall>i < length (subscriptions d).
           subscriptions d' ! i =
             (if stripe_subscription_id (subscriptions d ! i) = Some (ss_id subscription)
              then (subscriptions d ! i)\<lparr>sub_status := Canceled, canceled_at := Some now\<rparr>
              else subscriptions d ! i))) \<and>
   (stripe_signature req = Some sg \<and> sg \<noteq> [] \<and> c (raw_body req) sg = Some event \<and>
    ev_data event = CustomerSubscriptionDeleted subscription \<and>
    existingEvent d (ev_id event) = None \<longrightarrow>
      (\<exists>d'. stripe_webhook c d req now = (Res 200 Received, d') \<and>
         users d' = users d \<and> invoices d' = invoices d \<and>
         length (subscriptions d') = length (subscriptions d) \<and>
         (\<forall>i < length (subscriptions d).
            subscriptions d' ! i =
              (if stripe_subscription_id (subscriptions d ! i) = Some (ss_id subscription)
               then (subscriptions d ! i)\<lparr>sub_status := Canceled, canceled_at := Some now\<rparr>
               else subscriptions d ! i))))"
proof (intro conjI impI)
  show "\<exists>d'. handleSubscriptionDeleted d subscription now = Inr d' \<and>
        length (subscriptions d') = length (subscriptions d) \<and>
        (\<forall>i < length (subscriptions d).
           subscriptions d' ! i =
             (if stripe_subscription_id (subscriptions d ! i) = Some (ss_id subscription)
              then (subscriptions d ! i)\<lparr>sub_status := Canceled, canceled_at := Some now\<rparr>
              else subscriptions d ! i))"
    by (simp add: handleSubscriptionDeleted_def)
next
  assume a: "stripe_signature req = Some sg \<and> sg \<noteq> [] \<and> c (raw_body req) sg = Some event \<and>
    ev_data event = CustomerSubscriptionDeleted subscription \<and>
    existingEvent d (ev_id event) = None"
  then have v: "stripe_signature req = Some sg" "sg \<noteq> []" "c (raw_body req) sg = Some event"
    and ev: "ev_data event = CustomerSubscriptionDeleted subscription"
    and none: "existingEvent d (ev_id event) = None"
    by simp_all
  show "\<exists>d'. stripe_webhook c d req now = (Res 200 Received, d') \<and>
         users d' = users d \<and> invoices d' = invoices d \<and>
         length (subscriptions d') = length (subscriptions d) \<and>
         (\<forall>i < length (subscriptions d).
            subscriptions d' ! i =
              (if stripe_subscription_id (subscriptions d ! i) = Some (ss_id subscription)
               then (subscriptions d ! i)\<lparr>sub_status := Canceled, canceled_at := Some now\<rparr>
               else subscriptions d ! i))"
    unfolding stripe_webhook_verified[where c=c, OF v] none option.case ev
    by (simp add: Let_def handleSubscriptionDeleted_def)
qed

theorem subscription_deleted_always_stamps_witness:
  "(\<exists>d'. handleSubscriptionDeleted canceled_db stripe_sub_1 200 = Inr d' \<and>
         sub_status (subscriptions d' ! 0) = Canceled \<and>
         canceled_at (subscriptions d' ! 0) = Some 200) \<and>
   (\<exists>d'. stripe_webhook (accept_signed sub_deleted_event) canceled_db signed_request 200
           = (Res 200 Received, d') \<and>
         sub_status (subscriptions d' ! 0) = Canceled \<and>
         canceled_at (subscriptions d' ! 0) = Some 200)"
proof -
  have v: "stripe_signature signed_request = Some ''v1=ok'' \<and> ''v1=ok'' \<noteq> [] \<and>
           accept_signed sub_deleted_event (raw_body signed_request) ''v1=ok'' = Some sub_deleted_event \<and>
           ev_data sub_deleted_event = CustomerSubscriptionDeleted stripe_sub_1 \<and>
           existingEvent canceled_db (ev_id sub_deleted_event) = None"
    by (simp add: existingEvent_def fixture_defs)
  have len: "0 < length (subscriptions canceled_db)"
    by (simp add: canceled_db_def)
  have hit: "stripe_subscription_id (subscriptions canceled_db ! 0) = Some (ss_id stripe_sub_1)"
    by (simp add: canceled_db_def canceled_row_def stripe_sub_1_def)
  note inst = subscription_deleted_always_stamps
         [of canceled_db stripe_sub_1 200 signed_request "''v1=ok''"
             "accept_signed sub_deleted_event" sub_deleted_event]
  from inst obtain d' where handler: "handleSubscriptionDeleted canceled_db stripe_sub_1 200 = Inr d'"
    and rows: "\<forall>i < length (subscriptions canceled_db).
           subscriptions d' ! i =
             (if stripe_subscription_id (subscriptions canceled_db ! i) = Some (ss_id stripe_sub_1)
              then (subscriptions canceled_db ! i)\<lparr>sub_status := Canceled, canceled_at := Some 200\<rparr>
              else subscriptions canceled_db ! i)"
    by blast
  from rows len hit
  have row0: "subscriptions d' ! 0 = (subscriptions canceled_db ! 0)\<lparr>sub_status := Canceled, canceled_at := Some 200\<rparr>"
    by simp
  from inst v obtain d'' where route:
      "stripe_webhook (accept_signed sub_deleted_event) canceled_db signed_request 200 = (Res 200 Received, d'')"
    and rows': "\<forall>i < length (subscriptions canceled_db).
           subscriptions d'' ! i =
             (if stripe_subscription_id (subscriptions canceled_db ! i) = Some (ss_id stripe_sub_1)
              then (subscriptions canceled_db ! i)\<lparr>sub_status := Canceled, canceled_at := Some 200\<rparr>
              else subscriptions canceled_db ! i)"
    by blast
  from rows' len hit
  have row0': "subscriptions d'' ! 0 = (subscriptions canceled_db ! 0)\<lparr>sub_status := Canceled, canceled_at := Some 200\<rparr>"
    by simp
  from handler row0 route row0' show ?thesis by simp
qed








text \<open>
  An amount that does not fit the column makes each of the three handlers throw, once
  the customer has resolved to a user; the route then answers 500.
\<close>

lemma invoice_amount_out_of_range_throws:
  assumes "invoice_owner d invoice \<noteq> None" and "\<not> amount_fits (si_amount_due invoice)"
  shows "handleInvoicePaymentSucceeded d invoice now = Inl (amount_error (si_amount_due invoice))"
    and "handleInvoicePaymentFailed d invoice now = Inl (amount_error (si_amount_due invoice))"
    and "handleInvoiceFinalized d invoice now = Inl (amount_error (si_amount_due invoice))"
  using assms
  by (auto simp: handleInvoicePaymentSucceeded_def handleInvoicePaymentFailed_def
        handleInvoiceFinalized_def invoice_owner_def Let_def split: if_splits)




section \<open>Properties of the session routes\<close>

lemma find_map_preserving:
  "(\<And>x. P (f x) = P x) \<Longrightarrow> find P (map f xs) = map_option f (find P xs)"
  by (induction xs) auto

lemma find_append_cases:
  "find P (xs @ ys) = (case find P xs of None \<Rightarrow> find P ys | Some x \<Rightarrow> Some x)"
  by (induction xs) auto

lemma find_SomeD: "find P xs = Some x \<Longrightarrow> P x \<and> x \<in> set xs"
  by (induction xs) (auto split: if_splits)

lemma find_hash_revoked:
  "find (\<lambda>r. token_hash r = h) (map (\<lambda>r. if Q r then r\<lparr>revoked_at := v\<rparr> else r) xs)
     = map_option (\<lambda>r. if Q r then r\<lparr>revoked_at := v\<rparr> else r) (find (\<lambda>r. token_hash r = h) xs)"
  by (rule find_map_preserving) simp

text \<open>Rotation and login keep the stored digests unique.\<close>

lemma token_hash_unique_preserved:
  assumes "distinct (map token_hash (refresh_tokens d))"
  shows "distinct (map token_hash (refresh_tokens (snd (refresh env cfg d tok now))))"
    and "distinct (map token_hash (refresh_tokens (snd (login env cfg d em pw now))))"
  using assms
  by (auto simp: refresh_def login_def insert_refresh_token_def Let_def find_hash_revoked find_None_iff
        comp_def if_distrib[of token_hash] cong: if_cong
        split: option.splits sum.splits if_splits)

lemma refresh_success:
  assumes "refresh env cfg d (Some T) now = (Res 200 (Tokens A T'), d1)"
  shows "\<exists>st user.
    verifyRefreshToken cfg T now = Inr T \<and>
    find (\<lambda>r. token_hash r = sha256 env T) (refresh_tokens d) = Some st \<and>
    revoked_at st = None \<and> \<not> expires_at st < now \<and>
    find (\<lambda>u. u_id u = jwt_userId T \<and> deleted_at u = None) (users d) = Some user \<and>
    T' = generateRefreshToken cfg (u_id user) now \<and>
    find (\<lambda>r. token_hash r = sha256 env T') (refresh_tokens d) = None \<and>
    d1 = d\<lparr>refresh_tokens :=
              map (\<lambda>r. if rt_id r = rt_id st then r\<lparr>revoked_at := Some now\<rparr> else r) (refresh_tokens d) @
              [\<lparr>rt_id = next_uuid d, rt_user_id = u_id user, token_hash = sha256 env T',
                expires_at = now + thirty_days, revoked_at = None,
                replaced_by_token = Some (rt_id st)\<rparr>],
            next_uuid := Suc (next_uuid d)\<rparr>"
  using assms
  by (auto simp: refresh_def verifyRefreshToken_def jwt_verify_def Let_def insert_refresh_token_def
        find_hash_revoked split: option.splits sum.splits if_splits)

lemmas session_defs =
  refresh_def login_def authenticate_def change_password_def delete_profile_def
  insert_refresh_token_def verifyRefreshToken_def generateRefreshToken_def
  generateAccessToken_def jwt_verify_def jwt_sign_def thirty_days_def Let_def

lemmas session_fixture_defs =
  test_cfg_def test_env_def token_T_def token_T2_def alice_access_def token_db_def
  alice_db_def alice_def empty_db_def

text \<open>
  Rotation makes the presented token single-use. When \<open>refresh\<close> of a token \<open>T\<close>
  succeeds and hands out \<open>T'\<close>, presenting \<open>T\<close> again, at any time, is answered with
  401 \<open>INVALID_REFRESH_TOKEN\<close> and changes nothing. Presenting \<open>T'\<close> succeeds as long as
  \<open>T'\<close> has not expired (neither its \<open>exp\<close> claim nor its stored expiry) and the token
  that this second rotation mints has a digest that is not stored yet.
\<close>

lemma refresh_rotation_single_use:
  assumes ok: "refresh env cfg d (Some T) now = (Res 200 (Tokens A T'), d1)"
  shows "refresh env cfg d1 (Some T) later = (Res 401 (Failure ''INVALID_REFRESH_TOKEN''), d1) \<and>
         (later' div 1000 < now div 1000 + cfg_jwt_refreshExpiresIn cfg \<and>
          later' \<le> now + thirty_days \<and>
          find (\<lambda>r. token_hash r = sha256 env (generateRefreshToken cfg (jwt_userId T') later'))
            (refresh_tokens d1) = None
          \<longrightarrow> (\<exists>A' T'' d2. refresh env cfg d1 (Some T') later' = (Res 200 (Tokens A' T''), d2)))"
proof -
  from refresh_success[OF ok] obtain st user where
    st: "find (\<lambda>r. token_hash r = sha256 env T) (refresh_tokens d) = Some st"
    and user: "find (\<lambda>u. u_id u = jwt_userId T \<and> deleted_at u = None) (users d) = Some user"
    and T': "T' = generateRefreshToken cfg (u_id user) now"
    and fresh: "find (\<lambda>r. token_hash r = sha256 env T') (refresh_tokens d) = None"
    and d1: "d1 = d\<lparr>refresh_tokens :=
              map (\<lambda>r. if rt_id r = rt_id st then r\<lparr>revoked_at := Some now\<rparr> else r) (refresh_tokens d) @
              [\<lparr>rt_id = next_uuid d, rt_user_id = u_id user, token_hash = sha256 env T',
                expires_at = now + thirty_days, revoked_at = None,
                replaced_by_token = Some (rt_id st)\<rparr>],
            next_uuid := Suc (next_uuid d)\<rparr>"
    by blast
  have old: "find (\<lambda>r. token_hash r = sha256 env T) (refresh_tokens d1) = Some (st\<lparr>revoked_at := Some now\<rparr>)"
    unfolding d1 using st by (simp add: find_append_cases find_hash_revoked)
  have first: "refresh env cfg d1 (Some T) later = (Res 401 (Failure ''INVALID_REFRESH_TOKEN''), d1)"
    using old by (simp add: refresh_def split: sum.splits)
  have second: "\<exists>A' T'' d2. refresh env cfg d1 (Some T') later' = (Res 200 (Tokens A' T''), d2)"
    if win: "later' div 1000 < now div 1000 + cfg_jwt_refreshExpiresIn cfg" "later' \<le> now + thirty_days"
      and fresh': "find (\<lambda>r. token_hash r = sha256 env (generateRefreshToken cfg (jwt_userId T') later'))
            (refresh_tokens d1) = None"
  proof -
    have uid: "jwt_userId T' = u_id user" "u_id user = jwt_userId T"
      using find_SomeD[OF user] by (simp_all add: T' generateRefreshToken_def jwt_sign_def)
    have v: "verifyRefreshToken cfg T' later' = Inr T'"
      using win(1) by (simp add: T' verifyRefreshToken_def jwt_verify_def generateRefreshToken_def jwt_sign_def)
    have new: "find (\<lambda>r. token_hash r = sha256 env T') (refresh_tokens d1) =
        Some \<lparr>rt_id = next_uuid d, rt_user_id = u_id user, token_hash = sha256 env T',
                expires_at = now + thirty_days, revoked_at = None,
                replaced_by_token = Some (rt_id st)\<rparr>"
      unfolding d1 using fresh by (simp add: find_append_cases find_hash_revoked)
    have usr: "find (\<lambda>u. u_id u = jwt_userId T' \<and> deleted_at u = None) (users d1) = Some user"
      using user unfolding d1 uid by simp
    show ?thesis
      using v new usr fresh'[unfolded uid(1)] win(2)
      by (simp add: refresh_def insert_refresh_token_def Let_def find_hash_revoked)
  qed
  from first second show ?thesis by blast
qed

lemma refresh_rotation_single_use_example:
  "refresh test_env test_cfg (snd (refresh test_env test_cfg token_db (Some token_T) 5000))
      (Some token_T) 6000
     = (Res 401 (Failure ''INVALID_REFRESH_TOKEN''),
        snd (refresh test_env test_cfg token_db (Some token_T) 5000)) \<and>
   (\<exists>A' T'' d2.
      refresh test_env test_cfg (snd (refresh test_env test_cfg token_db (Some token_T) 5000))
        (Some (generateRefreshToken test_cfg 1 5000)) 9000
       = (Res 200 (Tokens A' T''), d2))"
proof -
  have ok: "refresh test_env test_cfg token_db (Some token_T) 5000
     = (Res 200 (Tokens (generateAccessToken test_cfg 1 ''alice@example.com'' ''user'' 5000)
                        (generateRefreshToken test_cfg 1 5000)),
        snd (refresh test_env test_cfg token_db (Some token_T) 5000))"
    by (simp add: prod_eq_iff session_defs session_fixture_defs)
  have w1: "9000 div 1000 < (5000::int) div 1000 + cfg_jwt_refreshExpiresIn test_cfg"
    by (simp add: test_cfg_def)
  have w2: "(9000::int) \<le> 5000 + thirty_days"
    by (simp add: thirty_days_def)
  have w3: "find (\<lambda>r. token_hash r =
                sha256 test_env (generateRefreshToken test_cfg (jwt_userId (generateRefreshToken test_cfg 1 5000)) 9000))
              (refresh_tokens (snd (refresh test_env test_cfg token_db (Some token_T) 5000))) = None"
    by (simp add: session_defs session_fixture_defs)
  from refresh_rotation_single_use[OF ok, of 6000 9000] w1 w2 w3
  show ?thesis by blast
qed

text \<open>
  C3, on the code: the replay of \<open>T\<close> fails as claimed, but \<open>refresh\<close> of the new token
  \<open>T'\<close> does not always succeed. A rotation in the clock second in which the presented
  token was minted signs the same payload again, gets the same token and the same
  digest, and the insert of the new row throws on the unique digest. Presenting \<open>T'\<close>
  in the second in which it was handed out is answered with 500 \<open>INTERNAL_ERROR\<close>,
  after \<open>T'\<close> has been revoked, and from then on \<open>T'\<close> is refused with 401: the
  session is lost.
\<close>

theorem refresh_same_second_rotation_fails:
  assumes ok: "refresh env cfg d (Some T) now = (Res 200 (Tokens A T'), d1)"
    and same: "later div 1000 = now div 1000"
    and live: "0 < cfg_jwt_refreshExpiresIn cfg" "later \<le> now + thirty_days"
  shows "\<exists>d2 r. refresh env cfg d1 (Some T') later = (Res 500 (Failure ''INTERNAL_ERROR''), d2) \<and>
           find (\<lambda>r. token_hash r = sha256 env T') (refresh_tokens d2) = Some r \<and>
           revoked_at r = Some later \<and>
           (\<forall>t. refresh env cfg d2 (Some T') t = (Res 401 (Failure ''INVALID_REFRESH_TOKEN''), d2))"
proof -
  from refresh_success[OF ok] obtain st user where
    st: "find (\<lambda>r. token_hash r = sha256 env T) (refresh_tokens d) = Some st"
    and user: "find (\<lambda>u. u_id u = jwt_userId T \<and> deleted_at u = None) (users d) = Some user"
    and T': "T' = generateRefreshToken cfg (u_id user) now"
    and fresh: "find (\<lambda>r. token_hash r = sha256 env T') (refresh_tokens d) = None"
    and d1: "d1 = d\<lparr>refresh_tokens :=
              map (\<lambda>r. if rt_id r = rt_id st then r\<lparr>revoked_at := Some now\<rparr> else r) (refresh_tokens d) @
              [\<lparr>rt_id = next_uuid d, rt_user_id = u_id user, token_hash = sha256 env T',
                expires_at = now + thirty_days, revoked_at = None,
                replaced_by_token = Some (rt_id st)\<rparr>],
            next_uuid := Suc (next_uuid d)\<rparr>"
    by blast
  define d2 where "d2 = d1\<lparr>refresh_tokens := map (\<lambda>r. if rt_id r = next_uuid d
                              then r\<lparr>revoked_at := Some later\<rparr> else r) (refresh_tokens d1)\<rparr>"
  have uid: "jwt_userId T' = u_id user" "u_id user = jwt_userId T"
    using find_SomeD[OF user] by (simp_all add: T' generateRefreshToken_def jwt_sign_def)
  have again: "generateRefreshToken cfg (u_id user) later = T'"
    using same by (simp add: T' generateRefreshToken_def jwt_sign_def)
  have v: "verifyRefreshToken cfg T' later = Inr T'"
    using same live(1)
    by (simp add: T' verifyRefreshToken_def jwt_verify_def generateRefreshToken_def jwt_sign_def)
  have new: "find (\<lambda>r. token_hash r = sha256 env T') (refresh_tokens d1) =
        Some \<lparr>rt_id = next_uuid d, rt_user_id = u_id user, token_hash = sha256 env T',
                expires_at = now + thirty_days, revoked_at = None,
                replaced_by_token = Some (rt_id st)\<rparr>"
    unfolding d1 using fresh by (simp add: find_append_cases find_hash_revoked)
  have usr: "find (\<lambda>u. u_id u = jwt_userId T' \<and> deleted_at u = None) (users d1) = Some user"
    using user unfolding d1 uid by simp
  have clash: "refresh env cfg d1 (Some T') later = (Res 500 (Failure ''INTERNAL_ERROR''), d2)"
    using v new usr again live(2)
    by (simp add: refresh_def insert_refresh_token_def Let_def find_hash_revoked d2_def)
  have revoked: "find (\<lambda>r. token_hash r = sha256 env T') (refresh_tokens d2) =
        Some \<lparr>rt_id = next_uuid d, rt_user_id = u_id user, token_hash = sha256 env T',
                expires_at = now + thirty_days, revoked_at = Some later,
                replaced_by_token = Some (rt_id st)\<rparr>"
    unfolding d2_def using new by (simp add: find_hash_revoked)
  have refused: "refresh env cfg d2 (Some T') t = (Res 401 (Failure ''INVALID_REFRESH_TOKEN''), d2)" for t
    using revoked by (simp add: refresh_def split: sum.splits)
  from clash revoked refused show ?thesis by simp
qed

theorem refresh_same_second_rotation_fails_witness:
  "fst (refresh test_env test_cfg token_db (Some token_T) 5000)
     = Res 200 (Tokens (generateAccessToken test_cfg 1 ''alice@example.com'' ''user'' 5000)
                       (generateRefreshToken test_cfg 1 5000)) \<and>
   fst (refresh test_env test_cfg
          (snd (refresh test_env test_cfg token_db (Some token_T) 5000))
          (Some (generateRefreshToken test_cfg 1 5000)) 5900)
     = Res 500 (Failure ''INTERNAL_ERROR'') \<and>
   map (\<lambda>r. (rt_id r, token_hash r, revoked_at r))
     (refresh_tokens (snd (refresh test_env test_cfg
          (snd (refresh test_env test_cfg token_db (Some token_T) 5000))
          (Some (generateRefreshToken test_cfg 1 5000)) 5900)))
     = [(2, ''digest-0'', Some 5000), (3, ''digest-1'', None), (4, ''digest-5'', Some 5900)] \<and>
   (\<exists>d2. refresh test_env test_cfg
          (snd (refresh test_env test_cfg token_db (Some token_T) 5000))
          (Some (generateRefreshToken test_cfg 1 5000)) 5900
        = (Res 500 (Failure ''INTERNAL_ERROR''), d2) \<and>
      refresh test_env test_cfg d2 (Some (generateRefreshToken test_cfg 1 5000)) 7000
        = (Res 401 (Failure ''INVALID_REFRESH_TOKEN''), d2))"
proof -
  have ok: "refresh test_env test_cfg token_db (Some token_T) 5000
     = (Res 200 (Tokens (generateAccessToken test_cfg 1 ''alice@example.com'' ''user'' 5000)
                        (generateRefreshToken test_cfg 1 5000)),
        snd (refresh test_env test_cfg token_db (Some token_T) 5000))"
    by (simp add: prod_eq_iff session_defs session_fixture_defs)
  have same: "(5900::int) div 1000 = 5000 div 1000" by simp
  have live1: "0 < cfg_jwt_refreshExpiresIn test_cfg" by (simp add: test_cfg_def)
  have live2: "(5900::int) \<le> 5000 + thirty_days" by (simp add: thirty_days_def)
  have first: "fst (refresh test_env test_cfg token_db (Some token_T) 5000)
     = Res 200 (Tokens (generateAccessToken test_cfg 1 ''alice@example.com'' ''user'' 5000)
                       (generateRefreshToken test_cfg 1 5000))"
    by (simp add: session_defs session_fixture_defs)
  have rows: "map (\<lambda>r. (rt_id r, token_hash r, revoked_at r))
     (refresh_tokens (snd (refresh test_env test_cfg
          (snd (refresh test_env test_cfg token_db (Some token_T) 5000))
          (Some (generateRefreshToken test_cfg 1 5000)) 5900)))
     = [(2, ''digest-0'', Some 5000), (3, ''digest-1'', None), (4, ''digest-5'', Some 5900)]"
    by (simp add: session_defs session_fixture_defs)
  from refresh_same_second_rotation_fails[OF ok same live1 live2]
  obtain d2 where clash: "refresh test_env test_cfg
          (snd (refresh test_env test_cfg token_db (Some token_T) 5000))
          (Some (generateRefreshToken test_cfg 1 5000)) 5900
        = (Res 500 (Failure ''INTERNAL_ERROR''), d2)"
    and refused: "\<forall>t. refresh test_env test_cfg d2 (Some (generateRefreshToken test_cfg 1 5000)) t
        = (Res 401 (Failure ''INVALID_REFRESH_TOKEN''), d2)"
    by blast
  from clash have second: "fst (refresh test_env test_cfg
          (snd (refresh test_env test_cfg token_db (Some token_T) 5000))
          (Some (generateRefreshToken test_cfg 1 5000)) 5900)
     = Res 500 (Failure ''INTERNAL_ERROR'')" by simp
  from refused have "refresh test_env test_cfg d2 (Some (generateRefreshToken test_cfg 1 5000)) 7000
        = (Res 401 (Failure ''INVALID_REFRESH_TOKEN''), d2)" by blast
  with first second rows clash show ?thesis by blast
qed

text \<open>
  C8, on the code: a successful rotation writes the link into the row of the new token.
  The row of the presented token \<open>T\<close> only gets \<open>revoked_at\<close>, its \<open>replaced_by_token\<close>
  stays what it was; the row stored for the new token \<open>T'\<close> gets the key of the row
  of \<open>T\<close> as its \<open>replaced_by_token\<close>. In the instance, rotating the token of row 2
  into the token of row 4 leaves row 2 without a \<open>replaced_by_token\<close>, and row 4 points
  back to row 2.
\<close>

theorem refresh_links_new_row_to_old:
  assumes ok: "refresh env cfg d (Some T) now = (Res 200 (Tokens A T'), d1)"
  shows "\<exists>old new.
           find (\<lambda>r. token_hash r = sha256 env T) (refresh_tokens d) = Some old \<and>
           find (\<lambda>r. token_hash r = sha256 env T) (refresh_tokens d1)
             = Some (old\<lparr>revoked_at := Some now\<rparr>) \<and>
           find (\<lambda>r. token_hash r = sha256 env T') (refresh_tokens d1) = Some new \<and>
           rt_id new = next_uuid d \<and>
           replaced_by_token new = Some (rt_id old)"
proof -
  from refresh_success[OF ok] obtain st user where
    st: "find (\<lambda>r. token_hash r = sha256 env T) (refresh_tokens d) = Some st"
    and user: "find (\<lambda>u. u_id u = jwt_userId T \<and> deleted_at u = None) (users d) = Some user"
    and T': "T' = generateRefreshToken cfg (u_id user) now"
    and fresh: "find (\<lambda>r. token_hash r = sha256 env T') (refresh_tokens d) = None"
    and d1: "d1 = d\<lparr>refresh_tokens :=
              map (\<lambda>r. if rt_id r = rt_id st then r\<lparr>revoked_at := Some now\<rparr> else r) (refresh_tokens d) @
              [\<lparr>rt_id = next_uuid d, rt_user_id = u_id user, token_hash = sha256 env T',
                expires_at = now + thirty_days, revoked_at = None,
                replaced_by_token = Some (rt_id st)\<rparr>],
            next_uuid := Suc (next_uuid d)\<rparr>"
    by blast
  have old: "find (\<lambda>r. token_hash r = sha256 env T) (refresh_tokens d1) = Some (st\<lparr>revoked_at := Some now\<rparr>)"
    unfolding d1 using st by (simp add: find_append_cases find_hash_revoked)
  have new: "find (\<lambda>r. token_hash r = sha256 env T') (refresh_tokens d1) =
        Some \<lparr>rt_id = next_uuid d, rt_user_id = u_id user, token_hash = sha256 env T',
                expires_at = now + thirty_days, revoked_at = None,
                replaced_by_token = Some (rt_id st)\<rparr>"
    unfolding d1 using fresh by (simp add: find_append_cases find_hash_revoked)
  from st old new show ?thesis by simp
qed

theorem refresh_links_new_row_to_old_witness:
  "map (\<lambda>r. (rt_id r, token_hash r, revoked_at r, replaced_by_token r))
     (refresh_tokens (snd (refresh test_env test_cfg token_db (Some token_T) 5000)))
     = [(2, ''digest-0'', Some 5000, None),
        (3, ''digest-1'', None, None),
        (4, ''digest-5'', None, Some 2)] \<and>
   (\<exists>old new.
      find (\<lambda>r. token_hash r = sha256 test_env token_T) (refresh_tokens token_db) = Some old \<and>
      find (\<lambda>r. token_hash r = sha256 test_env token_T)
        (refresh_tokens (snd (refresh test_env test_cfg token_db (Some token_T) 5000)))
        = Some (old\<lparr>revoked_at := Some 5000\<rparr>) \<and>
      find (\<lambda>r. token_hash r = sha256 test_env (generateRefreshToken test_cfg 1 5000))
        (refresh_tokens (snd (refresh test_env test_cfg token_db (Some token_T) 5000))) = Some new \<and>
      rt_id new = next_uuid token_db \<and>
      replaced_by_token new = Some (rt_id old))"
proof -
  have ok: "refresh test_env test_cfg token_db (Some token_T) 5000
     = (Res 200 (Tokens (generateAccessToken test_cfg 1 ''alice@example.com'' ''user'' 5000)
                        (generateRefreshToken test_cfg 1 5000)),
        snd (refresh test_env test_cfg token_db (Some token_T) 5000))"
    by (simp add: prod_eq_iff session_defs session_fixture_defs)
  have rows: "map (\<lambda>r. (rt_id r, token_hash r, revoked_at r, replaced_by_token r))
     (refresh_tokens (snd (refresh test_env test_cfg token_db (Some token_T) 5000)))
     = [(2, ''digest-0'', Some 5000, None),
        (3, ''digest-1'', None, None),
        (4, ''digest-5'', None, Some 2)]"
    by (simp add: session_defs session_fixture_defs)
  from rows refresh_links_new_row_to_old[OF ok] show ?thesis by blast
qed

text \<open>
  C4. For a user found by the login lookup, with four failed attempts on record and no
  lock in force: a wrong password is answered with 401, counts the fifth failure and
  sets \<open>locked_until\<close> to thirty minutes after the attempt. While that time lies in the
  future, the correct password is answered with 423 \<open>ACCOUNT_LOCKED\<close> and changes
  nothing. From that time on the correct password logs in, sets the counter to 0 and
  clears \<open>locked_until\<close> (given that the digest of the refresh token minted by the
  login is not stored yet).
\<close>

theorem login_lockout_threshold:
  assumes user: "find (\<lambda>u. email u = toLowerCase em \<and> deleted_at u = None) (users d) = Some u"
    and four: "failed_login_attempts u = Some 4"
    and unlocked: "\<forall>l. locked_until u = Some l \<longrightarrow> l \<le> now"
    and wrong: "\<not> bcrypt_compare env wrong (password_hash u)"
    and right: "bcrypt_compare env pw (password_hash u)"
  shows "\<exists>d1. login env cfg d em wrong now = (Res 401 (Failure ''INVALID_CREDENTIALS''), d1) \<and>
          find (\<lambda>u. email u = toLowerCase em \<and> deleted_at u = None) (users d1)
            = Some (u\<lparr>failed_login_attempts := Some 5, locked_until := Some (now + 30 * 60 * 1000)\<rparr>) \<and>
          (\<forall>t. t < now + 30 * 60 * 1000 \<longrightarrow>
               login env cfg d1 em pw t = (Res 423 (Failure ''ACCOUNT_LOCKED''), d1)) \<and>
          (\<forall>t. now + 30 * 60 * 1000 \<le> t \<and>
               find (\<lambda>r. token_hash r = sha256 env (generateRefreshToken cfg (u_id u) t))
                 (refresh_tokens d1) = None \<longrightarrow>
               (\<exists>A R d2. login env cfg d1 em pw t = (Res 200 (Tokens A R), d2) \<and>
                  find (\<lambda>u. email u = toLowerCase em \<and> deleted_at u = None) (users d2)
                    = Some (u\<lparr>failed_login_attempts := Some 0, locked_until := None,
                              last_login_at := Some t\<rparr>)))"
proof -
  define d1 where "d1 = d\<lparr>users := map (\<lambda>r. if u_id r = u_id u
                           then r\<lparr>failed_login_attempts := Some 5,
                                  locked_until := Some (now + 30 * 60 * 1000)\<rparr>
                           else r) (users d)\<rparr>"
  define u1 where "u1 = u\<lparr>failed_login_attempts := Some 5, locked_until := Some (now + 30 * 60 * 1000)\<rparr>"
  have notlocked: "\<not> (case locked_until u of None \<Rightarrow> False | Some l \<Rightarrow> now < l)"
    using unlocked by (auto split: option.splits)
  have step1: "login env cfg d em wrong now = (Res 401 (Failure ''INVALID_CREDENTIALS''), d1)"
    using user four notlocked wrong by (simp add: login_def d1_def Let_def)
  have found1: "find (\<lambda>u. email u = toLowerCase em \<and> deleted_at u = None) (users d1) = Some u1"
    unfolding d1_def u1_def using user by (simp add: find_map_preserving)
  have locked: "login env cfg d1 em pw t = (Res 423 (Failure ''ACCOUNT_LOCKED''), d1)"
    if "t < now + 30 * 60 * 1000" for t
    using found1 that by (simp add: login_def u1_def)
  have unlocked_again: "\<exists>A R d2. login env cfg d1 em pw t = (Res 200 (Tokens A R), d2) \<and>
        find (\<lambda>u. email u = toLowerCase em \<and> deleted_at u = None) (users d2)
          = Some (u\<lparr>failed_login_attempts := Some 0, locked_until := None, last_login_at := Some t\<rparr>)"
    if t: "now + 30 * 60 * 1000 \<le> t"
      and fresh: "find (\<lambda>r. token_hash r = sha256 env (generateRefreshToken cfg (u_id u) t))
                 (refresh_tokens d1) = None" for t
  proof -
    have pw1: "bcrypt_compare env pw (password_hash u1)" using right by (simp add: u1_def)
    have "find (\<lambda>u. email u = toLowerCase em \<and> deleted_at u = None)
            (map (\<lambda>r. if u_id r = u_id u1
                             then r\<lparr>failed_login_attempts := Some 0, locked_until := None,
                                    last_login_at := Some t\<rparr>
                             else r) (users d1))
          = Some (u\<lparr>failed_login_attempts := Some 0, locked_until := None, last_login_at := Some t\<rparr>)"
      using found1 by (simp add: find_map_preserving u1_def)
    then show ?thesis
      using found1 t fresh pw1
      by (simp add: login_def Let_def insert_refresh_token_def u1_def)
  qed
  from step1 found1 locked unlocked_again show ?thesis
    unfolding u1_def by blast
qed

theorem login_lockout_threshold_witness:
  "login test_env test_cfg
      (snd (login test_env test_cfg token_db ''Alice@Example.com'' ''guess'' 1000))
      ''Alice@Example.com'' ''Secret123'' 2000
     = (Res 423 (Failure ''ACCOUNT_LOCKED''),
        snd (login test_env test_cfg token_db ''Alice@Example.com'' ''guess'' 1000)) \<and>
   (\<exists>A R d2. login test_env test_cfg
      (snd (login test_env test_cfg token_db ''Alice@Example.com'' ''guess'' 1000))
      ''Alice@Example.com'' ''Secret123'' 1801000 = (Res 200 (Tokens A R), d2) \<and>
      find (\<lambda>u. email u = toLowerCase ''Alice@Example.com'' \<and> deleted_at u = None) (users d2)
        = Some (alice\<lparr>failed_login_attempts := Some 0, locked_until := None,
                     last_login_at := Some 1801000\<rparr>))"
proof -
  have lc: "toLowerCase ''Alice@Example.com'' = ''alice@example.com''"
    by code_simp
  have user: "find (\<lambda>u. email u = toLowerCase ''Alice@Example.com'' \<and> deleted_at u = None)
                (users token_db) = Some alice"
    by (simp add: lc session_fixture_defs)
  have four: "failed_login_attempts alice = Some 4" by (simp add: alice_def)
  have unlocked: "\<forall>l. locked_until alice = Some l \<longrightarrow> l \<le> 1000" by (simp add: alice_def)
  have wrong: "\<not> bcrypt_compare test_env ''guess'' (password_hash alice)"
    by (simp add: test_env_def alice_def)
  have right: "bcrypt_compare test_env ''Secret123'' (password_hash alice)"
    by (simp add: test_env_def alice_def)
  from login_lockout_threshold[OF user four unlocked wrong right, of test_cfg]
  obtain d1 where
    d1: "login test_env test_cfg token_db ''Alice@Example.com'' ''guess'' 1000
           = (Res 401 (Failure ''INVALID_CREDENTIALS''), d1)"
    and locked: "\<forall>t. t < 1000 + 30 * 60 * 1000 \<longrightarrow>
               login test_env test_cfg d1 ''Alice@Example.com'' ''Secret123'' t
                 = (Res 423 (Failure ''ACCOUNT_LOCKED''), d1)"
    and after: "\<forall>t. 1000 + 30 * 60 * 1000 \<le> t \<and>
               find (\<lambda>r. token_hash r = sha256 test_env (generateRefreshToken test_cfg (u_id alice) t))
                 (refresh_tokens d1) = None \<longrightarrow>
               (\<exists>A R d2. login test_env test_cfg d1 ''Alice@Example.com'' ''Secret123'' t
                    = (Res 200 (Tokens A R), d2) \<and>
                  find (\<lambda>u. email u = toLowerCase ''Alice@Example.com'' \<and> deleted_at u = None) (users d2)
                    = Some (alice\<lparr>failed_login_attempts := Some 0, locked_until := None,
                              last_login_at := Some t\<rparr>))"
    by blast
  have d1_eq: "d1 = snd (login test_env test_cfg token_db ''Alice@Example.com'' ''guess'' 1000)"
    by (simp add: d1)
  have tokens: "refresh_tokens d1 = refresh_tokens token_db"
    unfolding d1_eq by (simp add: login_def lc Let_def session_fixture_defs)
  have fresh: "find (\<lambda>r. token_hash r = sha256 test_env (generateRefreshToken test_cfg (u_id alice) 1801000))
                 (refresh_tokens d1) = None"
    unfolding tokens by (simp add: session_defs session_fixture_defs)
  from locked have a: "login test_env test_cfg d1 ''Alice@Example.com'' ''Secret123'' 2000
                 = (Res 423 (Failure ''ACCOUNT_LOCKED''), d1)" by simp
  from after fresh have b: "\<exists>A R d2. login test_env test_cfg d1 ''Alice@Example.com'' ''Secret123'' 1801000
                    = (Res 200 (Tokens A R), d2) \<and>
                  find (\<lambda>u. email u = toLowerCase ''Alice@Example.com'' \<and> deleted_at u = None) (users d2)
                    = Some (alice\<lparr>failed_login_attempts := Some 0, locked_until := None,
                              last_login_at := Some 1801000\<rparr>)" by simp
  from a b show ?thesis unfolding d1_eq by blast
qed

lemma find_distinct_key:
  "distinct (map f xs) \<Longrightarrow> x \<in> set xs \<Longrightarrow> find (\<lambda>r. f r = f x) xs = Some x"
  by (induction xs) (auto simp: image_iff)

lemma change_password_success:
  assumes "change_password env cfg d (Some access) cur new now = (Res 200 b, d1)"
  shows "refresh_tokens d1 =
           map (\<lambda>r. if rt_user_id r = jwt_userId access \<and> revoked_at r = None
                     then r\<lparr>revoked_at := Some now\<rparr> else r) (refresh_tokens d)"
  using assms
  by (auto simp: change_password_def authenticate_def jwt_verify_def
        split: sum.splits option.splits if_splits jwt_error.splits dest!: find_SomeD)

text \<open>
  C5. After a successful change of password, \<open>refresh\<close> with any token whose digest is
  stored for that user is answered with 401 \<open>INVALID_REFRESH_TOKEN\<close> and changes nothing,
  at any time. Digests are unique in the table, as the schema has it. The instance
  below has two tokens of one user (two devices); both fail.
\<close>

theorem change_password_revokes_all_tokens:
  assumes ok: "change_password env cfg d (Some access) currentPassword newPassword now = (Res 200 b, d1)"
    and unique: "distinct (map token_hash (refresh_tokens d))"
    and stored: "r \<in> set (refresh_tokens d)" "token_hash r = sha256 env T"
    and owner: "rt_user_id r = jwt_userId access"
  shows "refresh env cfg d1 (Some T) later = (Res 401 (Failure ''INVALID_REFRESH_TOKEN''), d1)"
proof -
  have "find (\<lambda>x. token_hash x = token_hash r) (refresh_tokens d) = Some r"
    using unique stored(1) by (rule find_distinct_key)
  then have "\<exists>r'. find (\<lambda>x. token_hash x = sha256 env T) (refresh_tokens d1) = Some r' \<and>
                revoked_at r' \<noteq> None"
    unfolding change_password_success[OF ok] stored(2) find_hash_revoked
    using owner by auto
  then show ?thesis
    by (auto simp: refresh_def split: sum.splits)
qed

theorem change_password_revokes_all_tokens_witness:
  "refresh test_env test_cfg
      (snd (change_password test_env test_cfg token_db (Some alice_access) ''Secret123'' ''NewSecret456'' 2000))
      (Some token_T) 3000
     = (Res 401 (Failure ''INVALID_REFRESH_TOKEN''),
        snd (change_password test_env test_cfg token_db (Some alice_access) ''Secret123'' ''NewSecret456'' 2000)) \<and>
   refresh test_env test_cfg
      (snd (change_password test_env test_cfg token_db (Some alice_access) ''Secret123'' ''NewSecret456'' 2000))
      (Some token_T2) 3000
     = (Res 401 (Failure ''INVALID_REFRESH_TOKEN''),
        snd (change_password test_env test_cfg token_db (Some alice_access) ''Secret123'' ''NewSecret456'' 2000))"
proof -
  have ok: "change_password test_env test_cfg token_db (Some alice_access) ''Secret123'' ''NewSecret456'' 2000
     = (Res 200 (Success ''Password changed successfully''),
        snd (change_password test_env test_cfg token_db (Some alice_access) ''Secret123'' ''NewSecret456'' 2000))"
    by (simp add: prod_eq_iff session_defs session_fixture_defs)
  have unique: "distinct (map token_hash (refresh_tokens token_db))"
    by (simp add: token_db_def)
  have r1: "\<lparr>rt_id = 2, rt_user_id = 1, token_hash = ''digest-0'', expires_at = thirty_days,
          revoked_at = None, replaced_by_token = None\<rparr> \<in> set (refresh_tokens token_db)"
    by (simp add: token_db_def)
  have r2: "\<lparr>rt_id = 3, rt_user_id = 1, token_hash = ''digest-1'', expires_at = 1000 + thirty_days,
          revoked_at = None, replaced_by_token = None\<rparr> \<in> set (refresh_tokens token_db)"
    by (simp add: token_db_def)
  have h1: "token_hash \<lparr>rt_id = 2, rt_user_id = 1, token_hash = ''digest-0'', expires_at = thirty_days,
          revoked_at = None, replaced_by_token = None\<rparr> = sha256 test_env token_T"
    by (simp add: session_defs session_fixture_defs)
  have h2: "token_hash \<lparr>rt_id = 3, rt_user_id = 1, token_hash = ''digest-1'', expires_at = 1000 + thirty_days,
          revoked_at = None, replaced_by_token = None\<rparr> = sha256 test_env token_T2"
    by (simp add: session_defs session_fixture_defs)
  have o1: "rt_user_id \<lparr>rt_id = 2, rt_user_id = 1, token_hash = ''digest-0'', expires_at = thirty_days,
          revoked_at = None, replaced_by_token = None\<rparr> = jwt_userId alice_access"
    by (simp add: session_defs session_fixture_defs)
  have o2: "rt_user_id \<lparr>rt_id = 3, rt_user_id = 1, token_hash = ''digest-1'', expires_at = 1000 + thirty_days,
          revoked_at = None, replaced_by_token = None\<rparr> = jwt_userId alice_access"
    by (simp add: session_defs session_fixture_defs)
  from change_password_revokes_all_tokens[OF ok unique r1 h1 o1, where later=3000]
       change_password_revokes_all_tokens[OF ok unique r2 h2 o2, where later=3000]
  show ?thesis by blast
qed

lemma delete_profile_success:
  assumes "delete_profile env cfg d (Some access) password now = (Res 200 b, d1)"
  shows "users d1 = map (\<lambda>r. if u_id r = jwt_userId access
                                 then r\<lparr>deleted_at := Some now,
                                        email := email r @ ''.deleted.'' @ uuid_text (u_id r)\<rparr>
                                 else r) (users d) \<and>
         (\<exists>usr. find (\<lambda>u. u_id u = jwt_userId access) (users d) = Some usr)"
  using assms
  by (auto simp: delete_profile_def authenticate_def jwt_verify_def
        split: sum.splits option.splits if_splits jwt_error.splits dest!: find_SomeD)

text \<open>
  C6. After a successful \<open>DELETE /profile\<close>, login with the e-mail address under which
  the deleted user was stored is answered with 401 \<open>INVALID_CREDENTIALS\<close> whatever the
  password, and \<open>authenticate\<close> answers an access token of that user with 401
  \<open>UNAUTHORIZED\<close> although its signature verifies and it has not expired. E-mail
  addresses are unique in the table, as the schema has it.
\<close>

theorem soft_deleted_account_shut_out:
  assumes del: "delete_profile env cfg d (Some access) password now = (Res 200 b, d1)"
    and emails: "distinct (map email (users d))"
    and u: "u \<in> set (users d)" "u_id u = jwt_userId access" "email u = toLowerCase em"
  shows "login env cfg d1 em pw later = (Res 401 (Failure ''INVALID_CREDENTIALS''), d1) \<and>
         (jwt_verify token (cfg_jwt_secret cfg) later' = Inr token \<and>
          jwt_userId token = jwt_userId access \<longrightarrow>
            authenticate cfg d1 (Some token) later' = Inl (Res 401 (Failure ''UNAUTHORIZED'')))"
proof -
  from delete_profile_success[OF del] obtain usr where
    users1: "users d1 = map (\<lambda>r. if u_id r = jwt_userId access
                                 then r\<lparr>deleted_at := Some now,
                                        email := email r @ ''.deleted.'' @ uuid_text (u_id r)\<rparr>
                                 else r) (users d)"
    and usr: "find (\<lambda>u. u_id u = jwt_userId access) (users d) = Some usr"
    by blast
  have gone: "find (\<lambda>x. email x = toLowerCase em \<and> deleted_at x = None) (users d1) = None"
  proof -
    have "\<not> (email x = toLowerCase em \<and> deleted_at x = None)" if "x \<in> set (users d1)" for x
    proof
      assume a: "email x = toLowerCase em \<and> deleted_at x = None"
      from that obtain r where r: "r \<in> set (users d)"
        and x: "x = (if u_id r = jwt_userId access
                     then r\<lparr>deleted_at := Some now, email := email r @ ''.deleted.'' @ uuid_text (u_id r)\<rparr>
                     else r)"
        unfolding users1 by auto
      from a x have other: "u_id r \<noteq> jwt_userId access" and same: "email r = email u"
        using u(3) by (auto split: if_splits)
      from emails r u(1) same have "r = u"
        by (meson distinct_map inj_onD)
      with other u(2) show False by simp
    qed
    then show ?thesis by (simp add: find_None_iff)
  qed
  have first: "login env cfg d1 em pw later = (Res 401 (Failure ''INVALID_CREDENTIALS''), d1)"
    using gone by (simp add: login_def)
  have "find (\<lambda>u. u_id u = jwt_userId access) (users d1)
          = Some (usr\<lparr>deleted_at := Some now, email := email usr @ ''.deleted.'' @ uuid_text (u_id usr)\<rparr>)"
    unfolding users1 using usr find_SomeD[OF usr] by (simp add: find_map_preserving)
  then have second: "authenticate cfg d1 (Some token) later' = Inl (Res 401 (Failure ''UNAUTHORIZED''))"
    if "jwt_verify token (cfg_jwt_secret cfg) later' = Inr token" "jwt_userId token = jwt_userId access"
    using that by (simp add: authenticate_def)
  from first second show ?thesis by blast
qed

theorem soft_deleted_account_shut_out_witness:
  "login test_env test_cfg
      (snd (delete_profile test_env test_cfg token_db (Some alice_access) (Some ''Secret123'') 2000))
      ''alice@example.com'' ''Secret123'' 3000
     = (Res 401 (Failure ''INVALID_CREDENTIALS''),
        snd (delete_profile test_env test_cfg token_db (Some alice_access) (Some ''Secret123'') 2000)) \<and>
   jwt_verify alice_access (cfg_jwt_secret test_cfg) 3000 = Inr alice_access \<and>
   authenticate test_cfg
      (snd (delete_profile test_env test_cfg token_db (Some alice_access) (Some ''Secret123'') 2000))
      (Some alice_access) 3000
     = Inl (Res 401 (Failure ''UNAUTHORIZED''))"
proof -
  have del: "delete_profile test_env test_cfg token_db (Some alice_access) (Some ''Secret123'') 2000
     = (Res 200 (Success ''Account deleted successfully''),
        snd (delete_profile test_env test_cfg token_db (Some alice_access) (Some ''Secret123'') 2000))"
    by (simp add: prod_eq_iff session_defs session_fixture_defs)
  have emails: "distinct (map email (users token_db))"
    by (simp add: session_fixture_defs)
  have u1: "alice \<in> set (users token_db)" by (simp add: session_fixture_defs)
  have u2: "u_id alice = jwt_userId alice_access" by (simp add: session_defs session_fixture_defs)
  have u3: "email alice = toLowerCase ''alice@example.com''" 
    unfolding alice_def by code_simp
  have valid: "jwt_verify alice_access (cfg_jwt_secret test_cfg) 3000 = Inr alice_access"
    by (simp add: session_defs session_fixture_defs)
  from soft_deleted_account_shut_out
         [OF del emails u1 u2 u3, where pw="''Secret123''" and later=3000 and token=alice_access and later'=3000]
       valid
  show ?thesis by blast
qed

end
